theory Spec2Isabelle
  imports Complex_Main
begin

section \<open>Score store and win resolver (AIBall.tsx, useAIBallsStore)\<close>

text \<open>
  JavaScript numbers that hold counts are natural numbers (they start at 0 and are
  only incremented), timestamps are the integer milliseconds of \<open>Date.now()\<close>,
  and coordinates, times and scales are modelled as exact reals.
\<close>

record vec3 =
  vx :: real
  vy :: real
  vz :: real

record aiBall =
  ball_id :: nat
  position :: vec3
  powerUpsCollected :: nat
  collectionTimestamps :: "int list"
  color :: string

record AIBallsState =
  aiBalls :: "aiBall list"
  playerPowerUpsCollected :: nat
  playerCollectionTimestamps :: "int list"

datatype win_reason = Primary | MostPowerups | Tiebreaker

record winner =
  w_id :: nat
  isPlayer :: bool
  w_color :: string
  reason :: win_reason
  powerupsCount :: nat
  playerWasInTie :: "bool option"

record topCollector =
  tc_id :: nat
  tc_isPlayer :: bool
  tc_color :: string
  tc_count :: nat
  lastTimestamp :: int

text \<open>\<open>resetBalls\<close>: the player's count and timestamps are cleared, every AI ball keeps
  its id, position and colour and has its count and timestamps cleared.\<close>

definition resetBalls :: "AIBallsState \<Rightarrow> AIBallsState" where
  "resetBalls s =
     \<lparr> aiBalls = map (\<lambda>ball. ball\<lparr> powerUpsCollected := 0, collectionTimestamps := [] \<rparr>) (aiBalls s),
       playerPowerUpsCollected = 0,
       playerCollectionTimestamps = [] \<rparr>"

text \<open>\<open>registerBall\<close>: the ball with this id is removed and pushed at the end with the
  new position and colour, keeping the count and timestamps it had (0 and [] when new).\<close>

definition registerBall :: "nat \<Rightarrow> vec3 \<Rightarrow> string \<Rightarrow> AIBallsState \<Rightarrow> AIBallsState" where
  "registerBall i pos col s =
     (let existingBall = find (\<lambda>ball. ball_id ball = i) (aiBalls s);
          cnt = (case existingBall of Some b \<Rightarrow> powerUpsCollected b | None \<Rightarrow> 0);
          ts = (case existingBall of Some b \<Rightarrow> collectionTimestamps b | None \<Rightarrow> []);
          updatedBalls = filter (\<lambda>ball. ball_id ball \<noteq> i) (aiBalls s)
      in s\<lparr> aiBalls := updatedBalls @
            [\<lparr> ball_id = i, position = pos, powerUpsCollected = cnt,
               collectionTimestamps = ts, color = col \<rparr>] \<rparr>)"

text \<open>\<open>incrementPowerUps\<close> returns the new store and whether the ball reached 5.
  \<open>isWinner\<close> is assigned in the map callback of each ball with this id, so the last
  such ball decides; it stays false when no ball has the id.\<close>

definition incrementPowerUps :: "int \<Rightarrow> nat \<Rightarrow> AIBallsState \<Rightarrow> AIBallsState \<times> bool" where
  "incrementPowerUps now i s =
     (let updatedBalls = map (\<lambda>ball. if ball_id ball = i
              then ball\<lparr> powerUpsCollected := powerUpsCollected ball + 1,
                         collectionTimestamps := collectionTimestamps ball @ [now] \<rparr>
              else ball) (aiBalls s);
          isWinner = fold (\<lambda>ball w. if ball_id ball = i then powerUpsCollected ball + 1 \<ge> 5 else w)
                          (aiBalls s) False
      in (s\<lparr> aiBalls := updatedBalls \<rparr>, isWinner))"

definition incrementPlayerPowerUps :: "int \<Rightarrow> AIBallsState \<Rightarrow> AIBallsState \<times> bool" where
  "incrementPlayerPowerUps now s =
     (let newCount = playerPowerUpsCollected s + 1;
          isWinner = (newCount \<ge> 5);
          newTimestamps = playerCollectionTimestamps s @ [now]
      in (s\<lparr> playerPowerUpsCollected := newCount,
               playerCollectionTimestamps := newTimestamps \<rparr>, isWinner))"

definition getTotalPowerupsCollected :: "AIBallsState \<Rightarrow> nat" where
  "getTotalPowerupsCollected s =
     fold (\<lambda>ball total. total + powerUpsCollected ball) (aiBalls s) (playerPowerUpsCollected s)"

definition getMaxPowerupsCollected :: "AIBallsState \<Rightarrow> nat" where
  "getMaxPowerupsCollected s =
     fold (\<lambda>ball mx. if powerUpsCollected ball > mx then powerUpsCollected ball else mx)
          (aiBalls s) (playerPowerUpsCollected s)"

text \<open>\<open>timestamps[count - 1] || 0\<close>: index \<open>-1\<close> and any index past the end read
  \<open>undefined\<close>, which \<open>||\<close> turns into 0 (as it does a stored 0).\<close>

definition timestampAt :: "int list \<Rightarrow> nat \<Rightarrow> int" where
  "timestampAt ts cnt =
     (if cnt = 0 then 0 else if cnt - 1 < length ts then ts ! (cnt - 1) else 0)"

definition playerColor :: string where
  "playerColor = ''#1e88e5''"

text \<open>The resolver. \<open>Array.prototype.sort\<close> is stable, so sorting by the comparator
  \<open>a.lastTimestamp - b.lastTimestamp\<close> is the stable \<open>sort_key\<close>. The function is
  given in three parts that follow the source top to bottom: the list of top
  collectors, the secondary and tiebreak rules, and the primary checks before them.\<close>

definition topCollectorsOf :: "AIBallsState \<Rightarrow> nat \<Rightarrow> topCollector list" where
  "topCollectorsOf s maxPowerups =
     (if playerPowerUpsCollected s = maxPowerups
      then [\<lparr> tc_id = 0, tc_isPlayer = True, tc_color = playerColor,
              tc_count = maxPowerups,
              lastTimestamp = timestampAt (playerCollectionTimestamps s)
                                (playerPowerUpsCollected s) \<rparr>]
      else []) @
     map (\<lambda>ball. \<lparr> tc_id = ball_id ball, tc_isPlayer = False, tc_color = color ball,
                   tc_count = maxPowerups,
                   lastTimestamp = timestampAt (collectionTimestamps ball)
                                     (powerUpsCollected ball) \<rparr>)
         (filter (\<lambda>ball. powerUpsCollected ball = maxPowerups) (aiBalls s))"

definition resolveTop :: "nat \<Rightarrow> topCollector list \<Rightarrow> winner option" where
  "resolveTop maxPowerups topCollectors =
     (if length topCollectors = 0 then None
      else if length topCollectors = 1 then
        Some \<lparr> w_id = tc_id (topCollectors ! 0), isPlayer = tc_isPlayer (topCollectors ! 0),
               w_color = tc_color (topCollectors ! 0), reason = MostPowerups,
               powerupsCount = maxPowerups, playerWasInTie = None \<rparr>
      else
        (let sorted = sort_key lastTimestamp topCollectors;
             inTie = list_ex tc_isPlayer sorted
         in Some \<lparr> w_id = tc_id (sorted ! 0), isPlayer = tc_isPlayer (sorted ! 0),
                   w_color = tc_color (sorted ! 0), reason = Tiebreaker,
                   powerupsCount = maxPowerups, playerWasInTie = Some inTie \<rparr>))"

definition getWinnerBySecondaryCondition :: "AIBallsState \<Rightarrow> winner option" where
  "getWinnerBySecondaryCondition s =
     (if playerPowerUpsCollected s \<ge> 5 then
        Some \<lparr> w_id = 0, isPlayer = True, w_color = playerColor, reason = Primary,
               powerupsCount = playerPowerUpsCollected s, playerWasInTie = None \<rparr>
      else case find (\<lambda>ball. powerUpsCollected ball \<ge> 5) (aiBalls s) of
        Some ball \<Rightarrow>
          Some \<lparr> w_id = ball_id ball, isPlayer = False, w_color = color ball, reason = Primary,
                 powerupsCount = powerUpsCollected ball, playerWasInTie = None \<rparr>
      | None \<Rightarrow>
         (let maxPowerups = getMaxPowerupsCollected s in
          if maxPowerups = 0 then None
          else resolveTop maxPowerups (topCollectorsOf s maxPowerups)))"

text \<open>The entities of a round, player first and then the AI balls in store order: the
  view of the store in which the resolver's contract is stated.\<close>

record entity =
  e_id :: nat
  e_isPlayer :: bool
  e_color :: string
  e_count :: nat
  e_timestamps :: "int list"

definition playerEntity :: "AIBallsState \<Rightarrow> entity" where
  "playerEntity s = \<lparr> e_id = 0, e_isPlayer = True, e_color = playerColor,
                      e_count = playerPowerUpsCollected s,
                      e_timestamps = playerCollectionTimestamps s \<rparr>"

definition aiEntity :: "aiBall \<Rightarrow> entity" where
  "aiEntity ball = \<lparr> e_id = ball_id ball, e_isPlayer = False, e_color = color ball,
                     e_count = powerUpsCollected ball,
                     e_timestamps = collectionTimestamps ball \<rparr>"

definition entities :: "AIBallsState \<Rightarrow> entity list" where
  "entities s = playerEntity s # map aiEntity (aiBalls s)"

definition names :: "winner \<Rightarrow> entity \<Rightarrow> bool" where
  "names w e \<longleftrightarrow> w_id w = e_id e \<and> isPlayer w = e_isPlayer e \<and> w_color w = e_color e
                 \<and> powerupsCount w = e_count e"

definition maxCount :: "AIBallsState \<Rightarrow> nat" where
  "maxCount s = Max (set (map e_count (entities s)))"

definition tied :: "AIBallsState \<Rightarrow> entity list" where
  "tied s = filter (\<lambda>e. e_count e = maxCount s) (entities s)"

definition timestampsRecorded :: "AIBallsState \<Rightarrow> bool" where
  "timestampsRecorded s \<longleftrightarrow> list_all (\<lambda>e. length (e_timestamps e) = e_count e) (entities s)"

text \<open>Helper views used to state the resolver's contract.\<close>

definition toTc :: "nat \<Rightarrow> entity \<Rightarrow> topCollector" where
  "toTc m e = \<lparr> tc_id = e_id e, tc_isPlayer = e_isPlayer e, tc_color = e_color e,
               tc_count = m, lastTimestamp = timestampAt (e_timestamps e) (e_count e) \<rparr>"

definition mkBall :: "nat \<Rightarrow> string \<Rightarrow> int list \<Rightarrow> aiBall" where
  "mkBall i col ts = \<lparr> ball_id = i, position = \<lparr> vx = 0, vy = 0, vz = 0 \<rparr>,
       powerUpsCollected = length ts, collectionTimestamps = ts, color = col \<rparr>"

definition mkStore :: "int list \<Rightarrow> aiBall list \<Rightarrow> AIBallsState" where
  "mkStore ts balls = \<lparr> aiBalls = balls, playerPowerUpsCollected = length ts,
       playerCollectionTimestamps = ts \<rparr>"

definition scoreView :: "aiBall \<Rightarrow> nat \<times> nat \<times> string" where
  "scoreView ball = (ball_id ball, powerUpsCollected ball, color ball)"

section \<open>Physics stepping loop (PhysicsWorld.tsx)\<close>

record body =
  b_mass :: real
  b_radius :: real
  b_position :: vec3
  b_velocity :: vec3
  b_angularVelocity :: vec3
  b_inertia :: vec3
  allowSleep :: bool

text \<open>The physics world is the library's object. What the program does to it is kept:
  the bodies added and removed, and the time step of every \<open>world.step\<close> call, in
  call order.\<close>

record cannonWorld =
  bodies :: "body list"
  stepCalls :: "real list"

record physicsTiming =
  accumulatorRef :: real
  prevTimeRef :: "real option"
  justResumedRef :: bool
  wasPausedRef :: bool





text \<open>The effect that runs when the pause flag changes, and \<open>resetPhysicsTiming\<close>.\<close>

definition pauseChanged :: "bool \<Rightarrow> physicsTiming \<Rightarrow> physicsTiming" where
  "pauseChanged isPaused t =
     (if isPaused then t\<lparr> wasPausedRef := True \<rparr>
      else if wasPausedRef t
        then t\<lparr> prevTimeRef := None, accumulatorRef := 0, justResumedRef := True,
                wasPausedRef := False \<rparr>
        else t)"

definition resetPhysicsTiming :: "physicsTiming \<Rightarrow> physicsTiming" where
  "resetPhysicsTiming t = t\<lparr> prevTimeRef := None, accumulatorRef := 0 \<rparr>"



section \<open>Pause-safe physics clock (usePhysicsClock)\<close>

record PhysicsClockState =
  clk_lastTimestamp :: real
  clk_isPaused :: bool
  accumulatedTime :: real
  pauseStartTime :: "real option"
  isFirstFrameAfterResume :: bool

text \<open>\<open>performance.now()\<close> is an input, in milliseconds.\<close>

definition setPaused :: "real \<Rightarrow> bool \<Rightarrow> PhysicsClockState \<Rightarrow> PhysicsClockState" where
  "setPaused perfNow paused s =
     (let currentTime = perfNow / 1000 in
      if paused \<noteq> clk_isPaused s then
        (if paused then s\<lparr> clk_isPaused := True, pauseStartTime := Some currentTime \<rparr>
         else s\<lparr> clk_isPaused := False, clk_lastTimestamp := currentTime,
                 isFirstFrameAfterResume := True, pauseStartTime := None \<rparr>)
      else s)"

definition clockReset :: "real \<Rightarrow> PhysicsClockState \<Rightarrow> PhysicsClockState" where
  "clockReset perfNow s =
     s\<lparr> clk_lastTimestamp := perfNow / 1000, clk_isPaused := False, accumulatedTime := 0,
        pauseStartTime := None, isFirstFrameAfterResume := False \<rparr>"




definition emptyWorld :: cannonWorld where
  "emptyWorld = \<lparr> bodies = [], stepCalls = [] \<rparr>"

definition runningTiming :: "real \<Rightarrow> physicsTiming" where
  "runningTiming t0 = \<lparr> accumulatorRef = 0, prevTimeRef = Some t0, justResumedRef = False,
                        wasPausedRef = False \<rparr>"

definition freshClock :: PhysicsClockState where
  "freshClock = \<lparr> clk_lastTimestamp = 0, clk_isPaused = False, accumulatedTime = 0,
                  pauseStartTime = None, isFirstFrameAfterResume = False \<rparr>"

section \<open>Physics bodies of the player ball and the AI balls (Ball.tsx, AIBall.tsx)\<close>

definition zeroVec :: vec3 where
  "zeroVec = \<lparr> vx = 0, vy = 0, vz = 0 \<rparr>"

text \<open>\<open>body.updateMassProperties()\<close> is the physics library's method, called by the
  program after each inertia assignment. It approximates the body by the box around
  its shape and overwrites the inertia with that of the box: with half extents \<open>e\<close>, the
  \<open>x\<close> component is \<open>(1/12) mass ((2 e.y)\<^sup>2 + (2 e.z)\<^sup>2)\<close>, and likewise for \<open>y\<close> and \<open>z\<close>.
  The box around a sphere has half extents equal to the radius on every axis.\<close>

definition updateMassProperties :: "body \<Rightarrow> body" where
  "updateMassProperties b =
     (let ex = b_radius b; ey = b_radius b; ez = b_radius b
      in b\<lparr> b_inertia :=
             \<lparr> vx = 1 / 12 * b_mass b * (2 * ey * 2 * ey + 2 * ez * 2 * ez),
               vy = 1 / 12 * b_mass b * (2 * ex * 2 * ex + 2 * ez * 2 * ez),
               vz = 1 / 12 * b_mass b * (2 * ey * 2 * ey + 2 * ex * 2 * ex) \<rparr> \<rparr>)"

text \<open>\<open>new CANNON.Body({mass, position, shape: new CANNON.Sphere(radius), allowSleep})\<close>:
  the position is copied, both velocities start at zero, and the constructor ends with
  \<open>updateMassProperties\<close>.\<close>

definition cannonBody :: "real \<Rightarrow> vec3 \<Rightarrow> real \<Rightarrow> bool \<Rightarrow> body" where
  "cannonBody mass pos radius sleep =
     updateMassProperties
       \<lparr> b_mass = mass, b_radius = radius, b_position = pos, b_velocity = zeroVec,
         b_angularVelocity = zeroVec, b_inertia = zeroVec, allowSleep = sleep \<rparr>"

text \<open>\<open>body.applyImpulse(impulse, relativePoint)\<close> of the physics library with the
  relative point at the centre of the body: a body of positive mass gets
  \<open>impulse / mass\<close> added to its velocity, and the angular part, which is the cross
  product with the relative point, is zero. A body of mass 0 is static and is left
  as it is.\<close>

definition applyImpulse :: "vec3 \<Rightarrow> body \<Rightarrow> body" where
  "applyImpulse impulse b =
     (if b_mass b \<le> 0 then b
      else
        (let invMass = 1 / b_mass b
         in b\<lparr> b_velocity :=
                \<lparr> vx = vx (b_velocity b) + vx impulse * invMass,
                  vy = vy (b_velocity b) + vy impulse * invMass,
                  vz = vz (b_velocity b) + vz impulse * invMass \<rparr> \<rparr>))"

definition removeBody :: "body \<Rightarrow> cannonWorld \<Rightarrow> cannonWorld" where
  "removeBody b w = w\<lparr> bodies := remove1 b (bodies w) \<rparr>"

definition addBody :: "body \<Rightarrow> cannonWorld \<Rightarrow> cannonWorld" where
  "addBody b w = w\<lparr> bodies := bodies w @ [b] \<rparr>"

text \<open>The \<open>usePhysics\<close> store.\<close>

record PhysicsState =
  world :: "cannonWorld option"
  playerBody :: "body option"

subsection \<open>Player ball\<close>

definition baseRadius :: real where
  "baseRadius = 0.5"

definition baseMass :: real where
  "baseMass = 5"

definition ballRadius :: "real \<Rightarrow> real" where
  "ballRadius ballScale = baseRadius * ballScale"

definition ballMass :: "real \<Rightarrow> real" where
  "ballMass ballScale = baseMass * ballScale ^ 3"

text \<open>\<open>createPlayerBall\<close>, on the physics store and the component's \<open>bodyRef\<close>;
  \<open>rnd\<close> is the value of \<open>Math.random()\<close>.\<close>

definition createPlayerBall ::
  "bool \<Rightarrow> real \<Rightarrow> real \<Rightarrow> PhysicsState \<times> body option \<Rightarrow> PhysicsState \<times> body option" where
  "createPlayerBall meshPresent rnd ballScale st =
     (case world (fst st) of
        None \<Rightarrow> st
      | Some w \<Rightarrow>
          if \<not> meshPresent then st
          else
            (let radius = ballRadius ballScale;
                 mass = ballMass ballScale;
                 I = 2 * mass * radius * radius / 5;
                 groundRadius = 33;
                 randomVariation = rnd * 2 - 1;
                 startRadius = groundRadius * 0.75 + randomVariation;
                 startAngle = pi * 0.5;
                 startX = cos startAngle * startRadius;
                 startZ = sin startAngle * startRadius;
                 body = updateMassProperties
                          ((cannonBody mass \<lparr> vx = startX, vy = radius, vz = startZ \<rparr> radius True)
                             \<lparr> b_inertia := \<lparr> vx = I, vy = I, vz = I \<rparr> \<rparr>);
                 w1 = (case snd st of Some old \<Rightarrow> removeBody old w | None \<Rightarrow> w)
             in ((fst st)\<lparr> world := Some (addBody body w1), playerBody := Some body \<rparr>,
                 Some body)))"

text \<open>The effect that runs when the player's scale changes.\<close>

definition ballScaleEffect ::
  "real \<Rightarrow> PhysicsState \<times> body option \<Rightarrow> PhysicsState \<times> body option" where
  "ballScaleEffect ballScale st =
     (case (snd st, world (fst st)) of
        (Some body, Some w) \<Rightarrow>
          (let radius = ballRadius ballScale;
               mass = ballMass ballScale;
               currentPosition = b_position body;
               currentVelocity = b_velocity body;
               currentAngularVelocity = b_angularVelocity body;
               w1 = removeBody body w;
               newMass = mass;
               I = 2 * newMass * radius * radius / 5;
               newBody0 = updateMassProperties
                            ((cannonBody newMass currentPosition radius True)
                               \<lparr> b_inertia := \<lparr> vx = I, vy = I, vz = I \<rparr> \<rparr>);
               newBody1 = (if vy (b_position newBody0) < radius
                           then newBody0\<lparr> b_position := (b_position newBody0)\<lparr> vy := radius \<rparr> \<rparr>
                           else newBody0);
               newBody = newBody1\<lparr> b_velocity := currentVelocity,
                                   b_angularVelocity := currentAngularVelocity \<rparr>
           in ((fst st)\<lparr> world := Some (addBody newBody w1), playerBody := Some newBody \<rparr>,
               Some newBody))
      | _ \<Rightarrow> st)"

subsection \<open>AI balls\<close>

record aiRefs =
  a_id :: nat
  a_startAngle :: real
  a_color :: string
  ai_bodyRef :: "body option"
  targetPositionRef :: "vec3 option"
  lastDirectionChangeRef :: real
  frameTimeRef :: real

definition sphereBaseRadius :: real where
  "sphereBaseRadius = 0.5"

definition aiBaseMass :: real where
  "aiBaseMass = 5"

definition aiRadius :: "real \<Rightarrow> real" where
  "aiRadius ballScale = sphereBaseRadius * ballScale"

definition aiMass :: "real \<Rightarrow> real" where
  "aiMass ballScale = aiBaseMass * ballScale ^ 3"

definition createPhysicsBody ::
  "real \<Rightarrow> cannonWorld option \<Rightarrow> vec3 \<Rightarrow> vec3 option \<Rightarrow> vec3 option
     \<Rightarrow> cannonWorld option \<times> body option" where
  "createPhysicsBody ballScale wo pos velocity angularVelocity =
     (case wo of
        None \<Rightarrow> (None, None)
      | Some w \<Rightarrow>
          (let radius = aiRadius ballScale;
               mass = aiMass ballScale;
               safePosition = pos;
               body0 = cannonBody mass safePosition radius False;
               I = 2 * mass * radius * radius / 5;
               body1 = updateMassProperties (body0\<lparr> b_inertia := \<lparr> vx = I, vy = I, vz = I \<rparr> \<rparr>);
               body2 = body1\<lparr> b_position := safePosition \<rparr>;
               body3 = (case velocity of Some v \<Rightarrow> body2\<lparr> b_velocity := v \<rparr> | None \<Rightarrow> body2);
               body4 = (case angularVelocity of Some a \<Rightarrow> body3\<lparr> b_angularVelocity := a \<rparr>
                        | None \<Rightarrow> body3)
           in (Some (addBody body4 w), Some body4)))"

text \<open>\<open>createAIBall\<close>, on the score store, the world and the component's refs. The
  start position \<open>(startX, startZ)\<close> is what \<open>calculateFairStartPosition\<close> returned.\<close>

definition createAIBall ::
  "real \<times> real \<Rightarrow> real \<Rightarrow> AIBallsState \<times> cannonWorld option \<times> aiRefs
     \<Rightarrow> AIBallsState \<times> cannonWorld option \<times> aiRefs" where
  "createAIBall start ballScale st =
     (case fst (snd st) of
        None \<Rightarrow> st
      | Some w \<Rightarrow>
          (let refs = snd (snd st);
               radius = aiRadius ballScale;
               initialPosition = \<lparr> vx = fst start, vy = radius, vz = snd start \<rparr>;
               store' = registerBall (a_id refs) initialPosition (a_color refs) (fst st);
               w1 = (case ai_bodyRef refs of Some old \<Rightarrow> removeBody old w | None \<Rightarrow> w);
               refs1 = refs\<lparr> ai_bodyRef := None \<rparr>;
               r = createPhysicsBody ballScale (Some w1) initialPosition None None
           in case snd r of
                None \<Rightarrow> (store', fst r, refs1)
              | Some body \<Rightarrow>
                  (let body' = body\<lparr> b_velocity := zeroVec, b_angularVelocity := zeroVec \<rparr>;
                       w2 = map_option (\<lambda>v. v\<lparr> bodies := butlast (bodies v) @ [body'] \<rparr>) (fst r)
                   in (store', w2,
                       refs1\<lparr> ai_bodyRef := Some body', targetPositionRef := None,
                              lastDirectionChangeRef := 0 \<rparr>))))"

text \<open>The effect that runs when an AI ball's scale changes. It returns the world and
  the refs as they are when the new body is registered, and the impulse that the
  effect then applies to the new body at its centre; \<open>rnd1\<close> and \<open>rnd2\<close> are the two
  values of \<open>Math.random()\<close>.\<close>

definition aiScaleEffect ::
  "real \<Rightarrow> real \<Rightarrow> real \<Rightarrow> cannonWorld option \<times> aiRefs
     \<Rightarrow> (cannonWorld option \<times> aiRefs) \<times> vec3 option" where
  "aiScaleEffect rnd1 rnd2 ballScale st =
     (case (ai_bodyRef (snd st), fst st) of
        (Some body, Some w) \<Rightarrow>
          (let currentPosition = b_position body;
               currentVelocity = b_velocity body;
               currentAngularVelocity = b_angularVelocity body;
               w1 = removeBody body w;
               refs1 = (snd st)\<lparr> ai_bodyRef := None \<rparr>;
               r = createPhysicsBody ballScale (Some w1) currentPosition
                     (Some currentVelocity) (Some currentAngularVelocity)
           in case snd r of
                None \<Rightarrow> ((fst r, refs1), None)
              | Some newBody0 \<Rightarrow>
                  (let newBody = newBody0\<lparr> b_position := currentPosition \<rparr>;
                       w2 = map_option (\<lambda>v. v\<lparr> bodies := butlast (bodies v) @ [newBody] \<rparr>) (fst r);
                       randomAngle = rnd1 * pi * 2;
                       randomStrength = 2 + rnd2
                   in ((w2, refs1\<lparr> ai_bodyRef := Some newBody, targetPositionRef := None,
                                   lastDirectionChangeRef := 0 \<rparr>),
                       Some \<lparr> vx = cos randomAngle * randomStrength, vy = 0,
                              vz = sin randomAngle * randomStrength \<rparr>)))
      | _ \<Rightarrow> (st, None))"

text \<open>A ball at rest on the ground at scale 1, and a world that holds it.\<close>

definition restingBall :: body where
  "restingBall = (cannonBody 5 \<lparr> vx = 0, vy = 1 / 2, vz = 99 / 4 \<rparr> (1 / 2) True)
                    \<lparr> b_velocity := \<lparr> vx = 1, vy = 0, vz = 0 \<rparr>,
                      b_angularVelocity := \<lparr> vx = 0, vy = 0, vz = 2 \<rparr> \<rparr>"

definition restingPhysics :: PhysicsState where
  "restingPhysics = \<lparr> world = Some \<lparr> bodies = [restingBall], stepCalls = [] \<rparr>,
                      playerBody = Some restingBall \<rparr>"

definition restingAI :: aiRefs where
  "restingAI = \<lparr> a_id = 1, a_startAngle = 0, a_color = ''#FF0000'', ai_bodyRef = Some restingBall,
                 targetPositionRef = None, lastDirectionChangeRef = 0, frameTimeRef = 0 \<rparr>"

section \<open>Fair start positions (AIBall.tsx, calculateFairStartPosition)\<close>

text \<open>\<open>calculateFairStartPosition\<close> reads the module variable \<open>sessionRandomSeed\<close>, here
  the argument \<open>sessionSeed\<close>. An index outside the table reads \<open>undefined\<close>, the sum with
  the variation is then \<open>NaN\<close> and so are both coordinates: that result is \<open>None\<close>.\<close>

definition fairDistances :: "real list" where
  "fairDistances =
     [23.75, 23.85, 23.95, 24.05, 24.15, 24.25, 24.35, 24.45,
      24.55, 24.65, 24.75, 24.85, 24.95, 25.05, 25.15, 25.25,
      25.35, 25.45, 25.55, 25.65, 25.75]"

definition calculateFairStartPosition :: "int \<Rightarrow> nat \<Rightarrow> real \<Rightarrow> (real \<times> real) option" where
  "calculateFairStartPosition sessionSeed i startAngle =
     (let randomIndex = \<lfloor>(sin (real i * 12.9898 + of_int sessionSeed * 78.233) * 0.5 + 0.5)
                           * real (length fairDistances)\<rfloor>;
          variationMultiplier = sin (real i * 43.758 + of_int sessionSeed * 36.2364) * 0.5 + 0.5;
          variation = variationMultiplier * 0.4 - 0.2
      in if 0 \<le> randomIndex \<and> randomIndex < int (length fairDistances)
         then
           (let finalDistance = fairDistances ! nat randomIndex;
                adjustedDistance = finalDistance + variation;
                startX = cos startAngle * adjustedDistance;
                startZ = sin startAngle * adjustedDistance
            in Some (startX, startZ))
         else None)"

section \<open>Stores read and written on collection (Ball.tsx, AIBall.tsx, WinModal.tsx, useGame)\<close>

record BallState =
  scale :: real
  isGrowing :: bool

text \<open>\<open>growBall\<close>; the timer it starts runs \<open>growBallTimeout\<close> 500 ms later.\<close>

definition growBall :: "BallState \<Rightarrow> BallState" where
  "growBall s = (if isGrowing s then s else s\<lparr> isGrowing := True, scale := scale s * 1.25 \<rparr>)"

definition growBallTimeout :: "BallState \<Rightarrow> BallState" where
  "growBallTimeout s = s\<lparr> isGrowing := False \<rparr>"

definition setScale :: "real \<Rightarrow> BallState \<Rightarrow> BallState" where
  "setScale v s = s\<lparr> scale := v \<rparr>"

record AIBallScaleState =
  scales :: "nat \<rightharpoonup> real"
  ai_isGrowing :: "nat \<rightharpoonup> bool"

text \<open>\<open>scales[id] || 1.0\<close>: a missing entry and a stored 0 both give 1.\<close>

definition getScale :: "nat \<Rightarrow> AIBallScaleState \<Rightarrow> real" where
  "getScale i s = (case scales s i of None \<Rightarrow> 1 | Some v \<Rightarrow> if v = 0 then 1 else v)"

definition growAIBall :: "nat \<Rightarrow> AIBallScaleState \<Rightarrow> AIBallScaleState" where
  "growAIBall i s =
     (if ai_isGrowing s i = Some True then s
      else s\<lparr> ai_isGrowing := (ai_isGrowing s)(i \<mapsto> True),
              scales := (scales s)(i \<mapsto> getScale i s * 1.25) \<rparr>)"

definition growAIBallTimeout :: "nat \<Rightarrow> AIBallScaleState \<Rightarrow> AIBallScaleState" where
  "growAIBallTimeout i s = s\<lparr> ai_isGrowing := (ai_isGrowing s)(i \<mapsto> False) \<rparr>"

definition resetScales :: "AIBallScaleState \<Rightarrow> AIBallScaleState" where
  "resetScales s = \<lparr> scales = Map.empty, ai_isGrowing = Map.empty \<rparr>"

record WinState =
  isWinner :: bool
  winnerId :: "nat option"
  winnerIsPlayer :: bool
  winnerColor :: string
  ws_powerupsCount :: nat
  winReason :: "win_reason option"
  ws_playerWasInTie :: bool

definition setWinner ::
  "nat \<Rightarrow> bool \<Rightarrow> string \<Rightarrow> nat \<Rightarrow> win_reason \<Rightarrow> bool option \<Rightarrow> WinState" where
  "setWinner i isP col cnt rsn inTie =
     \<lparr> isWinner = True, winnerId = Some i, winnerIsPlayer = isP, winnerColor = col,
       ws_powerupsCount = cnt, winReason = Some rsn,
       ws_playerWasInTie = (case inTie of None \<Rightarrow> False | Some b \<Rightarrow> b) \<rparr>"

definition resetWin :: WinState where
  "resetWin = \<lparr> isWinner = False, winnerId = None, winnerIsPlayer = False, winnerColor = [],
                ws_powerupsCount = 0, winReason = None, ws_playerWasInTie = False \<rparr>"

datatype GamePhase = start_menu | ready | playing | ended

definition gameEnd :: "GamePhase \<Rightarrow> GamePhase" where
  "gameEnd ph = (if ph = playing then ended else ph)"

definition gameStart :: "GamePhase \<Rightarrow> GamePhase" where
  "gameStart ph = (if ph = ready then playing else ph)"

section \<open>Power-up collection (PowerUp.tsx)\<close>

definition POWER_UP_RADIUS :: real where
  "POWER_UP_RADIUS = 0.5"

definition MAX_POWER_UPS :: nat where
  "MAX_POWER_UPS = 12"


text \<open>The component's state and refs. \<open>respawnTimeout\<close> is the pending respawn timer with
  the position it will spawn at; the rotation of the power-up is left out.\<close>

record powerUpComp =
  pu_active :: bool
  pu_position :: vec3
  powerUpsCollectedState :: nat
  isCollecting :: bool
  isCollectingRef :: bool
  prevPositionsRef :: "(real \<times> real) list"
  respawnTimeout :: "(real \<times> real) option"

text \<open>The effects of a collection that other parts can observe, in the order in which
  the handlers perform them.\<close>

datatype effect =
    LockSet
  | PlayPlayerPowerupSound
  | PlaySuccessSound
  | Deactivate
  | CounterIncrement
  | GrowPlayer
  | GrowAI nat
  | ScorePlayer
  | ScoreAI nat
  | WinnerSet
  | RoundEnd

record round =
  phase :: GamePhase
  winStore :: WinState
  scoreStore :: AIBallsState
  ballStore :: BallState
  aiScaleStore :: AIBallScaleState
  powerUp :: powerUpComp
  trace :: "effect list"


definition handlePlayerCollection :: "bool \<Rightarrow> int \<Rightarrow> round \<Rightarrow> round" where
  "handlePlayerCollection renderedIsCollecting now r =
     (if renderedIsCollecting \<or> isCollectingRef (powerUp r) then r
      else
        (let pu1 = (powerUp r)\<lparr> isCollecting := True, isCollectingRef := True \<rparr>;
             pu2 = pu1\<lparr> pu_active := False \<rparr>;
             pu3 = pu2\<lparr> powerUpsCollectedState := powerUpsCollectedState pu2 + 1 \<rparr>;
             ball' = growBall (ballStore r);
             inc = incrementPlayerPowerUps now (scoreStore r);
             r1 = r\<lparr> powerUp := pu3, ballStore := ball', scoreStore := fst inc,
                     trace := trace r @ [LockSet, PlayPlayerPowerupSound, Deactivate,
                                         CounterIncrement, GrowPlayer, ScorePlayer] \<rparr>
         in if snd inc then
              (let currentCount = playerPowerUpsCollected (scoreStore r1)
               in r1\<lparr> winStore := setWinner 0 True playerColor currentCount Primary (Some False),
                       phase := gameEnd (phase r1),
                       trace := trace r1 @ [WinnerSet, RoundEnd] \<rparr>)
            else r1))"

definition handleAICollection :: "bool \<Rightarrow> int \<Rightarrow> nat \<Rightarrow> string \<Rightarrow> round \<Rightarrow> round" where
  "handleAICollection renderedIsCollecting now ballId ballColor r =
     (if renderedIsCollecting \<or> isCollectingRef (powerUp r) then r
      else
        (let pu1 = (powerUp r)\<lparr> isCollecting := True, isCollectingRef := True \<rparr>;
             pu2 = pu1\<lparr> pu_active := False \<rparr>;
             pu3 = pu2\<lparr> powerUpsCollectedState := powerUpsCollectedState pu2 + 1 \<rparr>;
             inc = incrementPowerUps now ballId (scoreStore r);
             scl' = growAIBall ballId (aiScaleStore r);
             r1 = r\<lparr> powerUp := pu3, scoreStore := fst inc, aiScaleStore := scl',
                     trace := trace r @ [LockSet, PlaySuccessSound, Deactivate,
                                         CounterIncrement, ScoreAI ballId, GrowAI ballId] \<rparr>
         in if snd inc then
              (let currentBall = find (\<lambda>ball. ball_id ball = ballId) (aiBalls (scoreStore r1));
                   currentCount = (case currentBall of Some b \<Rightarrow> powerUpsCollected b | None \<Rightarrow> 5)
               in r1\<lparr> winStore := setWinner ballId False ballColor currentCount Primary (Some False),
                       phase := gameEnd (phase r1),
                       trace := trace r1 @ [WinnerSet, RoundEnd] \<rparr>)
            else r1))"




definition isCredit :: "effect \<Rightarrow> bool" where
  "isCredit e = (case e of ScorePlayer \<Rightarrow> True | ScoreAI i \<Rightarrow> True | _ \<Rightarrow> False)"

definition credits :: "effect list \<Rightarrow> nat" where
  "credits tr = length (filter isCredit tr)"

text \<open>The respawn effect. The candidate positions are those that successive calls of
  \<open>generateRandomPosition\<close> return; the \<open>do\<close> loop takes the first that is far enough
  from every earlier position, or the twentieth.\<close>

definition isFarEnough :: "(real \<times> real) list \<Rightarrow> real \<times> real \<Rightarrow> bool" where
  "isFarEnough prevs p =
     list_all (\<lambda>prev. (fst prev - fst p) * (fst prev - fst p)
                      + (snd prev - snd p) * (snd prev - snd p) > 10 * 10) prevs"

function pickPosition :: "(nat \<Rightarrow> real \<times> real) \<Rightarrow> (real \<times> real) list \<Rightarrow> nat \<Rightarrow> real \<times> real" where
  "pickPosition cand prevs attempts =
     (if isFarEnough prevs (cand attempts) \<or> attempts + 1 \<ge> 20 then cand attempts
      else pickPosition cand prevs (attempts + 1))"
  by pat_completeness auto
termination
  by (relation "measure (\<lambda>(cand, prevs, attempts). 20 - attempts)") auto

declare pickPosition.simps [simp del]

text \<open>Running the effect first clears the timer of its previous run.\<close>

definition respawnEffect :: "(nat \<Rightarrow> real \<times> real) \<Rightarrow> round \<Rightarrow> round" where
  "respawnEffect cand r =
     (let pu = (powerUp r)\<lparr> respawnTimeout := None \<rparr> in
      if \<not> pu_active pu \<and> powerUpsCollectedState pu \<le> MAX_POWER_UPS then
        (let pos = pickPosition cand (prevPositionsRef pu) 0
         in r\<lparr> powerUp := pu\<lparr> prevPositionsRef := prevPositionsRef pu @ [pos],
                                respawnTimeout := Some pos \<rparr> \<rparr>)
      else r\<lparr> powerUp := pu \<rparr>)"

text \<open>The timer firing after 2 s.\<close>

definition respawnFire :: "round \<Rightarrow> round" where
  "respawnFire r =
     (case respawnTimeout (powerUp r) of
        None \<Rightarrow> r
      | Some pos \<Rightarrow>
          r\<lparr> powerUp := (powerUp r)\<lparr> isCollecting := False, isCollectingRef := False,
                 pu_active := True,
                 pu_position := \<lparr> vx = fst pos, vy = POWER_UP_RADIUS, vz = snd pos \<rparr>,
                 respawnTimeout := None \<rparr> \<rparr>)"

text \<open>The effect that runs when the collected counter changes.\<close>

definition capEffect :: "round \<Rightarrow> round" where
  "capEffect r =
     (if powerUpsCollectedState (powerUp r) \<ge> MAX_POWER_UPS then
        (case getWinnerBySecondaryCondition (scoreStore r) of
           None \<Rightarrow> r
         | Some w \<Rightarrow>
             r\<lparr> winStore := setWinner (w_id w) (isPlayer w) (w_color w) (powerupsCount w)
                               (reason w) (playerWasInTie w),
                phase := gameEnd (phase r),
                trace := trace r @ [WinnerSet, RoundEnd] \<rparr>)
      else r)"

text \<open>The handler of the \<open>reset-powerups\<close> event.\<close>

definition handleReset :: "powerUpComp \<Rightarrow> powerUpComp" where
  "handleReset pu =
     pu\<lparr> powerUpsCollectedState := 0, isCollecting := False, isCollectingRef := False,
         prevPositionsRef := [(0, 0)], pu_active := True,
         pu_position := \<lparr> vx = 0, vy = POWER_UP_RADIUS, vz = 0 \<rparr> \<rparr>"

definition freshRound :: round where
  "freshRound =
     \<lparr> phase = playing, winStore = resetWin,
       scoreStore = mkStore [] [mkBall 1 ''#FF0000'' [], mkBall 2 ''#0000FF'' []],
       ballStore = \<lparr> scale = 1, isGrowing = False \<rparr>,
       aiScaleStore = \<lparr> scales = Map.empty, ai_isGrowing = Map.empty \<rparr>,
       powerUp = \<lparr> pu_active = True, pu_position = \<lparr> vx = 0, vy = 1 / 2, vz = 0 \<rparr>,
                   powerUpsCollectedState = 0, isCollecting = False, isCollectingRef = False,
                   prevPositionsRef = [(0, 0)], respawnTimeout = None \<rparr>,
       trace = [] \<rparr>"



definition fixedCandidate :: "nat \<Rightarrow> real \<times> real" where
  "fixedCandidate n = (12, 5)"


section \<open>AI movement (AIBall.tsx)\<close>

text \<open>\<open>timeBasedRandom\<close>: the fractional part of a scaled sine.\<close>

definition timeBasedRandom :: "real \<Rightarrow> real \<Rightarrow> real" where
  "timeBasedRandom seed time =
     (let x = sin (seed * 12.9898 + time * 78.233) * 43758.5453 in x - of_int \<lfloor>x\<rfloor>)"

text \<open>\<open>Vector3.normalize\<close> divides by the length, or by 1 when the length is 0.\<close>

definition normalizeVec :: "vec3 \<Rightarrow> vec3" where
  "normalizeVec v =
     (let len = sqrt (vx v * vx v + vy v * vy v + vz v * vz v);
          d = (if len = 0 then 1 else len)
      in \<lparr> vx = vx v / d, vy = vy v / d, vz = vz v / d \<rparr>)"

definition lengthSquared :: "vec3 \<Rightarrow> real" where
  "lengthSquared v = vx v * vx v + vy v * vy v + vz v * vz v"

text \<open>What one frame of an AI ball reads from outside the component: the clock, the
  rendered \<open>hasPlayerStartedMoving\<close> and pause flags, the nearest power-up found in the
  scene, the difficulty settings, the rendered scale, and the values of
  \<open>Math.random()\<close> for the wake-up and for the boundary reset.\<close>

record aiFrameIn =
  f_time :: real
  f_hasPlayerStartedMoving :: bool
  f_isPaused :: bool
  f_meshPresent :: bool
  f_powerUpPosition :: "vec3 option"
  f_speedMultiplier :: real
  f_powerupTargetChance :: real
  f_ballScale :: real
  f_wakeRandom :: real
  f_boundaryRandom :: real

text \<open>The frame is given in the three parts of the source: the gentle wake-up, the
  decision and movement, and the boundary check. Each returns the refs and the forces
  passed to \<open>applyForce\<close>; the movement part also says whether it returned early.\<close>

definition aiWakeUp :: "aiFrameIn \<Rightarrow> body \<Rightarrow> aiRefs \<Rightarrow> aiRefs \<times> vec3 list" where
  "aiWakeUp inp body refs =
     (let isStatic = lengthSquared (b_velocity body) < 0.01 in
      if isStatic \<and> f_hasPlayerStartedMoving inp then
        (let randomAngle = f_wakeRandom inp * pi * 2;
             deltaTime = f_time inp - frameTimeRef refs;
             safeDeltatime = (if deltaTime > 0.001 then deltaTime else 1 / 60);
             timeScaledForce = 0.05 * safeDeltatime * 60
         in (refs\<lparr> targetPositionRef := None,
                    lastDirectionChangeRef := f_time inp - 3.0 \<rparr>,
             [\<lparr> vx = cos randomAngle * timeScaledForce, vy = 0,
                 vz = sin randomAngle * timeScaledForce \<rparr>]))
      else (refs, []))"

definition aiMove :: "aiFrameIn \<Rightarrow> body \<Rightarrow> aiRefs \<Rightarrow> (aiRefs \<times> vec3 list) \<times> bool" where
  "aiMove inp body refs =
     (if f_hasPlayerStartedMoving inp then
        (let time = f_time inp;
             i = real (a_id refs);
             radius = aiRadius (f_ballScale inp);
             mass = aiMass (f_ballScale inp);
             groundRadius = 33;
             timeSinceLastChange = time - lastDirectionChangeRef refs;
             wantsPowerUp = (timeBasedRandom (i + 100) time \<le> f_powerupTargetChance inp);
             refs1 =
               (if targetPositionRef refs = None \<or> timeSinceLastChange > 2.0 then
                  (case f_powerUpPosition inp of
                     Some p \<Rightarrow>
                       if wantsPowerUp
                       then refs\<lparr> targetPositionRef := Some p, lastDirectionChangeRef := time \<rparr>
                       else refs\<lparr> targetPositionRef :=
                                    Some \<lparr> vx = cos (timeBasedRandom i time * pi * 2)
                                               * (timeBasedRandom (i + 1) time * groundRadius * 0.7),
                                           vy = radius,
                                           vz = sin (timeBasedRandom i time * pi * 2)
                                               * (timeBasedRandom (i + 1) time * groundRadius * 0.7) \<rparr>,
                                  lastDirectionChangeRef := time \<rparr>
                   | None \<Rightarrow>
                       refs\<lparr> targetPositionRef :=
                                    Some \<lparr> vx = cos (timeBasedRandom i time * pi * 2)
                                               * (timeBasedRandom (i + 1) time * groundRadius * 0.7),
                                           vy = radius,
                                           vz = sin (timeBasedRandom i time * pi * 2)
                                               * (timeBasedRandom (i + 1) time * groundRadius * 0.7) \<rparr>,
                                  lastDirectionChangeRef := time \<rparr>)
                else (case f_powerUpPosition inp of
                        Some p \<Rightarrow> if wantsPowerUp then refs\<lparr> targetPositionRef := Some p \<rparr> else refs
                      | None \<Rightarrow> refs))
         in case targetPositionRef refs1 of
              None \<Rightarrow> ((refs1, []), False)
            | Some target \<Rightarrow>
                (let meshPosition = b_position body;
                     direction = normalizeVec \<lparr> vx = vx target - vx meshPosition,
                                               vy = vy target - vy meshPosition,
                                               vz = vz target - vz meshPosition \<rparr>
                 in if f_isPaused inp then ((refs1\<lparr> frameTimeRef := time \<rparr>, []), True)
                    else
                      (let deltaTime0 = time - frameTimeRef refs1;
                           deltaTime = (if deltaTime0 > 0.1 \<or> frameTimeRef refs1 = 0
                                        then 1 / 60 else deltaTime0);
                           safeDeltatime = (if deltaTime > 0.001 then deltaTime else 1 / 60);
                           frameCompensation = safeDeltatime * 60;
                           baseForce = 13.0;
                           forceMagnitude = baseForce * mass * f_speedMultiplier inp * frameCompensation;
                           jitter = 0.3;
                           jitterX = 1.0 + (timeBasedRandom i (time + 0.1) * jitter * 2 - jitter);
                           jitterZ = 1.0 + (timeBasedRandom i (time + 0.2) * jitter * 2 - jitter)
                       in ((refs1\<lparr> frameTimeRef := time \<rparr>,
                            [\<lparr> vx = vx direction * forceMagnitude * jitterX, vy = 0,
                                vz = vz direction * forceMagnitude * jitterZ \<rparr>]), False))))
      else ((refs, []), False))"

definition aiBoundary :: "aiFrameIn \<Rightarrow> body \<Rightarrow> body" where
  "aiBoundary inp body =
     (if vy (b_position body) < -10 then
        (let safeRadius = 10;
             randomAngle = f_boundaryRandom inp * pi * 2
         in body\<lparr> b_position := \<lparr> vx = cos randomAngle * safeRadius,
                                     vy = aiRadius (f_ballScale inp) * 2,
                                     vz = sin randomAngle * safeRadius \<rparr>,
                   b_velocity := zeroVec, b_angularVelocity := zeroVec \<rparr>)
      else body)"

text \<open>The whole frame callback of an AI ball, on the score store and the refs; the
  forces are those passed to \<open>applyForce\<close>, in order.\<close>

definition aiFrame :: "aiFrameIn \<Rightarrow> AIBallsState \<times> aiRefs \<Rightarrow> (AIBallsState \<times> aiRefs) \<times> vec3 list" where
  "aiFrame inp st =
     (case ai_bodyRef (snd st) of
        None \<Rightarrow> (st, [])
      | Some body \<Rightarrow>
          if \<not> f_meshPresent inp then (st, [])
          else
            (let refs = snd st;
                 store' = registerBall (a_id refs) (b_position body) (a_color refs) (fst st);
                 wake = aiWakeUp inp body refs;
                 mv = aiMove inp body (fst wake);
                 refs2 = fst (fst mv);
                 forces = snd wake @ snd (fst mv)
             in if snd mv then ((store', refs2), forces)
                else ((store', refs2\<lparr> ai_bodyRef := Some (aiBoundary inp body) \<rparr>), forces)))"

text \<open>The check that runs every 3 s; \<open>rnd1\<close> and \<open>rnd2\<close> are the values of
  \<open>Math.random()\<close>.\<close>

definition stallCheck :: "bool \<Rightarrow> real \<Rightarrow> real \<Rightarrow> aiRefs \<Rightarrow> aiRefs" where
  "stallCheck hasStarted rnd1 rnd2 refs =
     (case ai_bodyRef refs of
        None \<Rightarrow> refs
      | Some body \<Rightarrow>
          if hasStarted \<and> lengthSquared (b_velocity body) < 0.05 then
            (let randomAngle = rnd1 * pi * 2;
                 randomStrength = 2 + rnd2 * 2
             in refs\<lparr> ai_bodyRef := Some (body\<lparr> b_velocity := (b_velocity body)
                                            \<lparr> vx := cos randomAngle * randomStrength,
                                              vz := sin randomAngle * randomStrength \<rparr> \<rparr>),
                      targetPositionRef := None, lastDirectionChangeRef := 0 \<rparr>)
          else refs)"

section \<open>Controls, pause, pointer and camera stores\<close>

record ControlsState =
  directionX :: real
  directionZ :: real
  hasPlayerStartedMoving :: bool
  isInputEnabled :: bool
  movementForce :: real

definition setMovementDirection :: "real \<Rightarrow> real \<Rightarrow> ControlsState \<Rightarrow> ControlsState" where
  "setMovementDirection x z s =
     (if \<not> isInputEnabled s then
        (if directionX s \<noteq> 0 \<or> directionZ s \<noteq> 0
         then s\<lparr> directionX := 0, directionZ := 0 \<rparr> else s)
      else
        (let isMoving = (x \<noteq> 0 \<or> z \<noteq> 0);
             hasStarted = (hasPlayerStartedMoving s \<or> isMoving)
         in s\<lparr> directionX := x, directionZ := z, hasPlayerStartedMoving := hasStarted \<rparr>))"

definition enableInput :: "ControlsState \<Rightarrow> ControlsState" where
  "enableInput s = s\<lparr> isInputEnabled := True \<rparr>"

definition disableInput :: "ControlsState \<Rightarrow> ControlsState" where
  "disableInput s = s\<lparr> isInputEnabled := False, directionX := 0, directionZ := 0 \<rparr>"

definition resetPlayerMovementFlag :: "ControlsState \<Rightarrow> ControlsState" where
  "resetPlayerMovementFlag s = s\<lparr> hasPlayerStartedMoving := False, directionX := 0, directionZ := 0 \<rparr>"

definition setMovementForce :: "real \<Rightarrow> ControlsState \<Rightarrow> ControlsState" where
  "setMovementForce force s = s\<lparr> movementForce := force \<rparr>"

record PauseState =
  isPaused :: bool
  isSettingsOpen :: bool

definition storePauseGame :: "PauseState \<Rightarrow> PauseState" where
  "storePauseGame s = s\<lparr> isPaused := True \<rparr>"

definition storeResumeGame :: "PauseState \<Rightarrow> PauseState" where
  "storeResumeGame s = s\<lparr> isPaused := False, isSettingsOpen := False \<rparr>"

text \<open>The pointer-lock flag of \<open>usePointerLockStore\<close>, that of \<open>useCameraRotationState\<close>,
  and whether the document has a pointer-lock element.\<close>

record pointerState =
  isLocked :: bool
  isPointerLocked :: bool
  pointerLockElement :: bool

record CameraState =
  rotation :: real
  targetRotation :: real
  rotationSpeed :: real

section \<open>The game manager (GameManager.ts)\<close>

text \<open>Everything \<open>restartGame\<close> reads or writes: the stores, the refs of the mounted
  components, the session seed, and whether \<open>window.resetPhysicsTiming\<close> is installed.\<close>

record app =
  roundState :: round
  controls :: ControlsState
  pauseStore :: PauseState
  physicsClock :: PhysicsClockState
  physics :: PhysicsState
  timing :: physicsTiming
  resetPhysicsTimingInstalled :: bool
  playerBodyRef :: "body option"
  aiComponents :: "aiRefs list"
  sessionRandomSeed :: int
  hasSelectedLevel :: bool
  pointer :: pointerState
  camera :: CameraState

text \<open>What a restart reads from outside the stores: \<open>Date.now()\<close> and
  \<open>performance.now()\<close>, the value of \<open>Math.random()\<close> for the player's start, the start
  position \<open>calculateFairStartPosition\<close> gives for a seed, an id and an angle, the scales
  in the closures of the player's and the AI balls' reset listeners, and whether the
  player's mesh is mounted.\<close>

record env =
  e_dateNow :: int
  e_perfNow :: real
  e_random :: real
  e_fairStart :: "int \<Rightarrow> nat \<Rightarrow> real \<Rightarrow> real \<times> real"
  e_playerScale :: real
  e_aiScale :: "nat \<Rightarrow> real"
  e_meshPresent :: bool

definition resetPointerLockState :: "app \<Rightarrow> app" where
  "resetPointerLockState a =
     a\<lparr> pointer := (pointer a)\<lparr> isLocked := False, isPointerLocked := False,
                                  pointerLockElement := False \<rparr> \<rparr>"

definition resetCameraDirection :: "app \<Rightarrow> app" where
  "resetCameraDirection a = a\<lparr> camera := (camera a)\<lparr> rotation := 0, targetRotation := 0 \<rparr> \<rparr>"

definition resetGameState :: "app \<Rightarrow> app" where
  "resetGameState a = a\<lparr> roundState := (roundState a)\<lparr> winStore := resetWin, phase := ready \<rparr> \<rparr>"

definition resetPhysicsWorld :: "app \<Rightarrow> app" where
  "resetPhysicsWorld a =
     (let a1 = a\<lparr> physics := (physics a)\<lparr> playerBody := None \<rparr> \<rparr>
      in if resetPhysicsTimingInstalled a1 then a1\<lparr> timing := resetPhysicsTiming (timing a1) \<rparr>
         else a1)"

definition resetBallState :: "app \<Rightarrow> app" where
  "resetBallState a =
     a\<lparr> roundState := (roundState a)\<lparr> ballStore := setScale 1.0 (ballStore (roundState a)) \<rparr> \<rparr>"

definition resetAIBallState :: "app \<Rightarrow> app" where
  "resetAIBallState a =
     a\<lparr> roundState := (roundState a)\<lparr> scoreStore := resetBalls (scoreStore (roundState a)),
                                        aiScaleStore := resetScales (aiScaleStore (roundState a)) \<rparr> \<rparr>"

text \<open>The \<open>reset-ball-positions\<close> listener of one AI ball: it takes the new seed when
  the event carries a non-zero one, and recreates the ball.\<close>

definition aiResetListener ::
  "env \<Rightarrow> int \<Rightarrow> aiRefs \<Rightarrow> (AIBallsState \<times> cannonWorld option \<times> int) \<times> aiRefs list
     \<Rightarrow> (AIBallsState \<times> cannonWorld option \<times> int) \<times> aiRefs list" where
  "aiResetListener e newSessionSeed refs acc =
     (let store = fst (fst acc);
          w = fst (snd (fst acc));
          seed = (if newSessionSeed \<noteq> 0 then newSessionSeed else snd (snd (fst acc)));
          r = createAIBall (e_fairStart e seed (a_id refs) (a_startAngle refs))
                (e_aiScale e (a_id refs)) (store, w, refs)
      in ((fst r, fst (snd r), seed), snd acc @ [snd (snd r)]))"

text \<open>The event is dispatched to the listeners in the order in which they were added:
  the player's, then each AI ball's. They are added only once the world exists.\<close>

definition resetBallPositions :: "env \<Rightarrow> app \<Rightarrow> app" where
  "resetBallPositions e a =
     (case world (physics a) of
        None \<Rightarrow> a
      | Some w0 \<Rightarrow>
          (let newSessionSeed = e_dateNow e div 1000;
               p = createPlayerBall (e_meshPresent e) (e_random e) (e_playerScale e)
                     (physics a, playerBodyRef a);
               r = fold (aiResetListener e newSessionSeed) (aiComponents a)
                     ((scoreStore (roundState a), world (fst p), sessionRandomSeed a), [])
           in a\<lparr> roundState := (roundState a)\<lparr> scoreStore := fst (fst r) \<rparr>,
                 physics := (fst p)\<lparr> world := fst (snd (fst r)) \<rparr>,
                 playerBodyRef := snd p,
                 aiComponents := snd r,
                 sessionRandomSeed := snd (snd (fst r)) \<rparr>))"

definition resetPowerups :: "app \<Rightarrow> app" where
  "resetPowerups a =
     a\<lparr> roundState := (roundState a)\<lparr> powerUp := handleReset (powerUp (roundState a)) \<rparr> \<rparr>"

text \<open>\<open>resetControlsState\<close> reads \<open>hasPlayerStartedMoving\<close> from the state object it fetched
  before the call of \<open>setMovementDirection\<close>.\<close>

definition resetControlsState :: "app \<Rightarrow> app" where
  "resetControlsState a =
     (let c0 = controls a;
          c1 = setMovementDirection 0 0 c0;
          c2 = (if hasPlayerStartedMoving c0 then resetPlayerMovementFlag c1 else c1)
      in a\<lparr> controls := disableInput c2 \<rparr>)"

definition resetPhysicsClock :: "env \<Rightarrow> app \<Rightarrow> app" where
  "resetPhysicsClock e a = a\<lparr> physicsClock := clockReset (e_perfNow e) (physicsClock a) \<rparr>"

definition resetDifficultySelection :: "app \<Rightarrow> app" where
  "resetDifficultySelection a = a\<lparr> hasSelectedLevel := False \<rparr>"

definition resumeGame :: "env \<Rightarrow> app \<Rightarrow> app" where
  "resumeGame e a =
     (if \<not> isPaused (pauseStore a) then a
      else
        (let a1 = a\<lparr> pauseStore := storeResumeGame (pauseStore a) \<rparr>;
             a2 = (if resetPhysicsTimingInstalled a1
                   then a1\<lparr> timing := resetPhysicsTiming (timing a1) \<rparr> else a1);
             a3 = a2\<lparr> physicsClock := setPaused (e_perfNow e) False (physicsClock a2) \<rparr>
         in if phase (roundState a) = playing \<and> hasSelectedLevel a
            then a3\<lparr> controls := enableInput (controls a3) \<rparr>
            else a3))"

text \<open>\<open>restartGame\<close>. The audio store is not written: the mute flag it compares is read
  twice from the same state object.\<close>

definition restartGame :: "env \<Rightarrow> app \<Rightarrow> app" where
  "restartGame e a =
     (let a1 = resetPointerLockState a;
          a2 = resetCameraDirection a1;
          a3 = resetGameState a2;
          a4 = resetPhysicsWorld a3;
          a5 = resetBallState a4;
          a6 = resetAIBallState a5;
          a7 = resetBallPositions e a6;
          a8 = resetPowerups a7;
          a9 = resetControlsState a8;
          a10 = resetPhysicsClock e a9;
          a11 = resetDifficultySelection a10
      in resumeGame e a11)"

definition cleared :: "AIBallsState \<Rightarrow> bool" where
  "cleared s \<longleftrightarrow> playerPowerUpsCollected s = 0 \<and> playerCollectionTimestamps s = []
       \<and> (\<forall>b \<in> set (aiBalls s). powerUpsCollected b = 0 \<and> collectionTimestamps b = [])"

definition playedRound :: round where
  "playedRound = handleAICollection False 2000 1 ''#FF0000''
                   (respawnFire (respawnEffect fixedCandidate
                      (handlePlayerCollection False 1000 freshRound)))"

definition fixedStart :: "int \<Rightarrow> nat \<Rightarrow> real \<Rightarrow> real \<times> real" where
  "fixedStart seed i angle = (24, 0)"

definition unitScale :: "nat \<Rightarrow> real" where
  "unitScale i = 1"

definition playedApp :: app where
  "playedApp =
     \<lparr> roundState = playedRound,
       controls = \<lparr> directionX = 1, directionZ = 0, hasPlayerStartedMoving = True,
                    isInputEnabled = True, movementForce = 13 \<rparr>,
       pauseStore = \<lparr> isPaused = False, isSettingsOpen = False \<rparr>,
       physicsClock = freshClock,
       physics = restingPhysics,
       timing = runningTiming 0,
       resetPhysicsTimingInstalled = True,
       playerBodyRef = Some restingBall,
       aiComponents = [restingAI],
       sessionRandomSeed = 1700000000,
       hasSelectedLevel = True,
       pointer = \<lparr> isLocked = True, isPointerLocked = True, pointerLockElement = True \<rparr>,
       camera = \<lparr> rotation = 1, targetRotation = 1, rotationSpeed = 1 / 10 \<rparr> \<rparr>"

definition testEnv :: env where
  "testEnv = \<lparr> e_dateNow = 1800000000000, e_perfNow = 5000, e_random = 1 / 2,
               e_fairStart = fixedStart, e_playerScale = 5 / 4, e_aiScale = unitScale,
               e_meshPresent = True \<rparr>"

definition idleFrame :: aiFrameIn where
  "idleFrame = \<lparr> f_time = 10, f_hasPlayerStartedMoving = False, f_isPaused = False,
                 f_meshPresent = True, f_powerUpPosition = Some \<lparr> vx = 0, vy = 1 / 2, vz = 0 \<rparr>,
                 f_speedMultiplier = 1, f_powerupTargetChance = 1, f_ballScale = 1,
                 f_wakeRandom = 0, f_boundaryRandom = 0 \<rparr>"

section \<open>The win resolver\<close>

lemma fold_max_step:
  "fold (\<lambda>ball mx. if powerUpsCollected ball > mx then powerUpsCollected ball else mx) bs a
     = fold max (map powerUpsCollected bs) (a::nat)"
  by (induction bs arbitrary: a) (auto simp: max_def)

lemma getMax_is_maxCount: "getMaxPowerupsCollected s = maxCount s"
proof -
  have "Max (set (playerPowerUpsCollected s # map powerUpsCollected (aiBalls s)))
          = fold max (map powerUpsCollected (aiBalls s)) (playerPowerUpsCollected s)"
    by (rule Max.set_eq_fold)
  moreover have "map e_count (entities s)
          = playerPowerUpsCollected s # map powerUpsCollected (aiBalls s)"
    by (simp add: entities_def playerEntity_def aiEntity_def comp_def)
  ultimately show ?thesis
    by (simp only: getMaxPowerupsCollected_def maxCount_def fold_max_step)
qed

lemma maxCount_ge: "e \<in> set (entities s) \<Longrightarrow> e_count e \<le> maxCount s"
  by (simp add: maxCount_def)

lemma topCollectors_eq:
  "topCollectorsOf s m = map (toTc m) (filter (\<lambda>e. e_count e = m) (entities s))"
  by (simp add: topCollectorsOf_def entities_def playerEntity_def aiEntity_def toTc_def filter_map comp_def)

lemma no_five_iff:
  "(\<not> playerPowerUpsCollected s \<ge> 5 \<and> find (\<lambda>ball. powerUpsCollected ball \<ge> 5) (aiBalls s) = None)
    \<longleftrightarrow> (\<forall>e \<in> set (entities s). e_count e < 5)"
  by (auto simp: entities_def playerEntity_def aiEntity_def find_None_iff)

lemma names_toTc:
  "e_count e = m \<Longrightarrow>
   names \<lparr> w_id = tc_id (toTc m e), isPlayer = tc_isPlayer (toTc m e),
           w_color = tc_color (toTc m e), reason = r,
           powerupsCount = m, playerWasInTie = p \<rparr> e"
  by (simp add: names_def toTc_def)

lemma sort_key_first:
  assumes "xs \<noteq> []"
  shows "sort_key f xs ! 0 \<in> set xs" and "\<forall>x \<in> set xs. f (sort_key f xs ! 0) \<le> f x"
proof -
  obtain y ys where ys: "sort_key f xs = y # ys"
    using assms by (cases "sort_key f xs") (auto dest: arg_cong[where f=length])
  have "set (sort_key f xs) = set xs" by simp
  with ys have mem: "y \<in> set xs" and sub: "set xs = insert y (set ys)" by auto
  have "sorted (map f (sort_key f xs))" by (rule sorted_sort_key)
  with ys have "\<forall>x \<in> set ys. f y \<le> f x" by simp
  with sub have "\<forall>x \<in> set xs. f y \<le> f x" by auto
  with mem ys show "sort_key f xs ! 0 \<in> set xs" and "\<forall>x \<in> set xs. f (sort_key f xs ! 0) \<le> f x"
    by simp_all
qed

lemma resolver_primary:
  assumes "\<exists>e \<in> set (entities s). 5 \<le> e_count e"
  shows "\<exists>w e. getWinnerBySecondaryCondition s = Some w \<and> e \<in> set (entities s)
            \<and> 5 \<le> e_count e \<and> names w e \<and> reason w = Primary"
proof (cases "5 \<le> playerPowerUpsCollected s")
  case True
  then show ?thesis
    by (intro exI[of _ "\<lparr> w_id = 0, isPlayer = True, w_color = playerColor, reason = Primary,
               powerupsCount = playerPowerUpsCollected s, playerWasInTie = None \<rparr>"]
              exI[of _ "playerEntity s"])
       (simp add: getWinnerBySecondaryCondition_def entities_def names_def playerEntity_def)
next
  case False
  with assms obtain b0 where "b0 \<in> set (aiBalls s)" "5 \<le> powerUpsCollected b0"
    by (auto simp: entities_def playerEntity_def aiEntity_def)
  then have "find (\<lambda>ball. powerUpsCollected ball \<ge> 5) (aiBalls s) \<noteq> None"
    by (auto simp: find_None_iff)
  then obtain b where f: "find (\<lambda>ball. powerUpsCollected ball \<ge> 5) (aiBalls s) = Some b"
    by auto
  then have b: "b \<in> set (aiBalls s)" "5 \<le> powerUpsCollected b"
    by (auto simp: find_Some_iff)
  show ?thesis
    using False f b
    by (intro exI[of _ "\<lparr> w_id = ball_id b, isPlayer = False, w_color = color b, reason = Primary,
                 powerupsCount = powerUpsCollected b, playerWasInTie = None \<rparr>"]
              exI[of _ "aiEntity b"])
       (simp add: getWinnerBySecondaryCondition_def entities_def names_def aiEntity_def)
qed

lemma resolver_below_five:
  assumes "\<forall>e \<in> set (entities s). e_count e < 5"
  shows "getWinnerBySecondaryCondition s =
           (if maxCount s = 0 then None
            else resolveTop (maxCount s) (map (toTc (maxCount s)) (tied s)))"
proof -
  from assms have "\<not> 5 \<le> playerPowerUpsCollected s"
    and "find (\<lambda>ball. powerUpsCollected ball \<ge> 5) (aiBalls s) = None"
    using no_five_iff[of s] by auto
  then show ?thesis
    by (simp add: getWinnerBySecondaryCondition_def getMax_is_maxCount topCollectors_eq tied_def Let_def)
qed

lemma resolver_unique:
  assumes "\<forall>e \<in> set (entities s). e_count e < 5" "0 < maxCount s" "length (tied s) = 1"
  shows "\<exists>w. getWinnerBySecondaryCondition s = Some w \<and> names w (hd (tied s))
              \<and> reason w = MostPowerups"
proof -
  from assms(3) obtain e where t: "tied s = [e]" by (cases "tied s") auto
  then have "e \<in> set (tied s)" by simp
  then have c: "e_count e = maxCount s" by (simp add: tied_def)
  show ?thesis
    using assms(2) t names_toTc[OF c]
    by (simp add: resolver_below_five[OF assms(1)] resolveTop_def)
qed

lemma timestampAt_recorded:
  "length ts = c \<Longrightarrow> 0 < c \<Longrightarrow> timestampAt ts c = ts ! (c - 1)"
  by (simp add: timestampAt_def)

lemma resolver_tiebreak:
  assumes rec: "timestampsRecorded s"
    and lt: "\<forall>e \<in> set (entities s). e_count e < 5" and pos: "0 < maxCount s"
    and many: "1 < length (tied s)"
  shows "\<exists>w e. getWinnerBySecondaryCondition s = Some w \<and> e \<in> set (tied s) \<and> names w e
            \<and> reason w = Tiebreaker
            \<and> (\<forall>e' \<in> set (tied s). e_timestamps e ! (maxCount s - 1)
                                     \<le> e_timestamps e' ! (maxCount s - 1))
            \<and> playerWasInTie w = Some (\<exists>e' \<in> set (tied s). e_isPlayer e')"
proof -
  let ?m = "maxCount s"
  let ?tcs = "map (toTc ?m) (tied s)"
  let ?srt = "sort_key lastTimestamp ?tcs"
  have ne: "?tcs \<noteq> []" using many by auto
  from sort_key_first[OF ne, of lastTimestamp]
  have mem: "?srt ! 0 \<in> set ?tcs" and least: "\<forall>x \<in> set ?tcs. lastTimestamp (?srt ! 0) \<le> lastTimestamp x"
    by blast+
  from mem obtain e where e: "e \<in> set (tied s)" "?srt ! 0 = toTc ?m e" by auto
  have cnt: "\<And>e'. e' \<in> set (tied s) \<Longrightarrow> e_count e' = ?m" by (simp add: tied_def)
  have ts: "\<And>e'. e' \<in> set (tied s) \<Longrightarrow> lastTimestamp (toTc ?m e') = e_timestamps e' ! (?m - 1)"
  proof -
    fix e' assume a: "e' \<in> set (tied s)"
    then have "e' \<in> set (entities s)" by (simp add: tied_def)
    with rec have "length (e_timestamps e') = e_count e'"
      by (simp add: timestampsRecorded_def list_all_iff)
    with cnt[OF a] pos show "lastTimestamp (toTc ?m e') = e_timestamps e' ! (?m - 1)"
      by (simp add: toTc_def timestampAt_recorded)
  qed
  have min: "\<forall>e' \<in> set (tied s). e_timestamps e ! (?m - 1) \<le> e_timestamps e' ! (?m - 1)"
  proof
    fix e' assume a: "e' \<in> set (tied s)"
    then have "toTc ?m e' \<in> set ?tcs" by simp
    with least have "lastTimestamp (?srt ! 0) \<le> lastTimestamp (toTc ?m e')" by blast
    then show "e_timestamps e ! (?m - 1) \<le> e_timestamps e' ! (?m - 1)"
      using e ts[OF a] ts[OF e(1)] by simp
  qed
  have ex: "list_ex tc_isPlayer ?srt \<longleftrightarrow> (\<exists>e' \<in> set (tied s). e_isPlayer e')"
    by (auto simp: list_ex_iff toTc_def)
  have res: "getWinnerBySecondaryCondition s =
          Some \<lparr> w_id = tc_id (?srt ! 0), isPlayer = tc_isPlayer (?srt ! 0),
                 w_color = tc_color (?srt ! 0), reason = Tiebreaker,
                 powerupsCount = ?m, playerWasInTie = Some (list_ex tc_isPlayer ?srt) \<rparr>"
    using pos many ne by (simp add: resolver_below_five[OF lt] resolveTop_def Let_def del: sort_key_simps)
  show ?thesis
    apply (rule exI[of _ "\<lparr> w_id = tc_id (?srt ! 0), isPlayer = tc_isPlayer (?srt ! 0),
                 w_color = tc_color (?srt ! 0), reason = Tiebreaker,
                 powerupsCount = ?m, playerWasInTie = Some (list_ex tc_isPlayer ?srt) \<rparr>"])
    apply (rule exI[of _ e])
    using res e(1) min ex names_toTc[OF cnt[OF e(1)], of Tiebreaker "Some (list_ex tc_isPlayer ?srt)"] e(2)
    by simp
qed

lemma resolver_zero:
  assumes "\<forall>e \<in> set (entities s). e_count e < 5" "maxCount s = 0"
  shows "getWinnerBySecondaryCondition s = None"
  using assms(2) by (simp add: resolver_below_five[OF assms(1)])

text \<open>Every operation of the store keeps one timestamp per collection, the state in
  which the tiebreak reads the \<open>N\<close>-th timestamp of each tied entity.\<close>

lemma timestampsRecorded_iff:
  "timestampsRecorded s \<longleftrightarrow>
     length (playerCollectionTimestamps s) = playerPowerUpsCollected s
     \<and> (\<forall>b \<in> set (aiBalls s). length (collectionTimestamps b) = powerUpsCollected b)"
  by (auto simp: timestampsRecorded_def entities_def playerEntity_def aiEntity_def list_all_iff)

lemma timestampsRecorded_maintained:
  "timestampsRecorded (resetBalls s)"
  "timestampsRecorded s \<Longrightarrow> timestampsRecorded (fst (incrementPlayerPowerUps now s))"
  "timestampsRecorded s \<Longrightarrow> timestampsRecorded (fst (incrementPowerUps now i s))"
  "timestampsRecorded s \<Longrightarrow> timestampsRecorded (registerBall i p c s)"
proof -
  show "timestampsRecorded (resetBalls s)"
    by (auto simp: timestampsRecorded_iff resetBalls_def)
  show "timestampsRecorded s \<Longrightarrow> timestampsRecorded (fst (incrementPlayerPowerUps now s))"
    by (auto simp: timestampsRecorded_iff incrementPlayerPowerUps_def Let_def)
  show "timestampsRecorded s \<Longrightarrow> timestampsRecorded (fst (incrementPowerUps now i s))"
    by (auto simp: timestampsRecorded_iff incrementPowerUps_def Let_def)
  show "timestampsRecorded s \<Longrightarrow> timestampsRecorded (registerBall i p c s)"
  proof -
    assume r: "timestampsRecorded s"
    have "\<And>b. find (\<lambda>ball. ball_id ball = i) (aiBalls s) = Some b \<Longrightarrow>
            length (collectionTimestamps b) = powerUpsCollected b"
      using r by (auto simp: timestampsRecorded_iff find_Some_iff)
    with r show ?thesis
      by (auto simp: timestampsRecorded_iff registerBall_def Let_def split: option.splits)
  qed
qed

text \<open>
  Claim C1. The win resolver is a function of the score store alone and returns:
  when some entity (player or AI ball) has at least 5 power-ups, a winner that names
  such an entity, with reason \<open>primary\<close>; when no entity has 5 and the maximum count
  is 0, no winner; when no entity has 5 and exactly one entity holds the positive
  maximum, that entity with reason \<open>most-powerups\<close>; when several entities tie at the
  positive maximum \<open>N\<close> (every entity having one timestamp per collection), one of the
  tied entities whose \<open>N\<close>-th timestamp is least among the tied, with reason
  \<open>tiebreaker\<close> and the flag \<open>playerWasInTie\<close> true exactly when the player is tied.
\<close>

theorem getWinnerBySecondaryCondition_contract:
  "((\<exists>e \<in> set (entities s). 5 \<le> e_count e) \<longrightarrow>
      (\<exists>w e. getWinnerBySecondaryCondition s = Some w \<and> e \<in> set (entities s)
            \<and> 5 \<le> e_count e \<and> names w e \<and> reason w = Primary))
   \<and> ((\<forall>e \<in> set (entities s). e_count e < 5) \<and> maxCount s = 0 \<longrightarrow>
      getWinnerBySecondaryCondition s = None)
   \<and> ((\<forall>e \<in> set (entities s). e_count e < 5) \<and> 0 < maxCount s \<and> length (tied s) = 1 \<longrightarrow>
      (\<exists>w. getWinnerBySecondaryCondition s = Some w \<and> names w (hd (tied s))
              \<and> reason w = MostPowerups))
   \<and> (timestampsRecorded s \<and> (\<forall>e \<in> set (entities s). e_count e < 5) \<and> 0 < maxCount s
        \<and> 1 < length (tied s) \<longrightarrow>
      (\<exists>w e. getWinnerBySecondaryCondition s = Some w \<and> e \<in> set (tied s) \<and> names w e
            \<and> reason w = Tiebreaker
            \<and> (\<forall>e' \<in> set (tied s). e_timestamps e ! (maxCount s - 1)
                                     \<le> e_timestamps e' ! (maxCount s - 1))
            \<and> playerWasInTie w = Some (\<exists>e' \<in> set (tied s). e_isPlayer e')))"
  using resolver_primary[of s] resolver_zero[of s] resolver_unique[of s] resolver_tiebreak[of s]
  by blast

lemmas ev = maxCount_def tied_def entities_def mkStore_def mkBall_def playerEntity_def aiEntity_def
  timestampsRecorded_def names_def

text \<open>The four scenarios: the player at 5; nobody has collected; AI ball 4 alone at
  the maximum 3; the player (4th at 1000) and AI ball 2 (4th at 900) tied at 4.\<close>

theorem getWinnerBySecondaryCondition_contract_witness:
  "(\<exists>w. getWinnerBySecondaryCondition
           (mkStore [10, 20, 30, 40, 50] [mkBall 1 ''#FF0000'' [15, 25], mkBall 2 ''#0000FF'' [35]])
         = Some w \<and> isPlayer w \<and> powerupsCount w = 5 \<and> reason w = Primary)
   \<and> getWinnerBySecondaryCondition (mkStore [] [mkBall 1 ''#FF0000'' [], mkBall 2 ''#0000FF'' []]) = None
   \<and> (\<exists>w. getWinnerBySecondaryCondition
           (mkStore [10, 20] [mkBall 3 ''#00FF00'' [15], mkBall 4 ''#FFFF00'' [30, 40, 50]])
         = Some w \<and> w_id w = 4 \<and> \<not> isPlayer w \<and> powerupsCount w = 3 \<and> reason w = MostPowerups)
   \<and> (\<exists>w. getWinnerBySecondaryCondition
           (mkStore [100, 400, 700, 1000]
              [mkBall 1 ''#FF0000'' [50], mkBall 2 ''#0000FF'' [200, 300, 800, 900],
               mkBall 3 ''#00FF00'' [500, 600, 950]])
         = Some w \<and> w_id w = 2 \<and> \<not> isPlayer w \<and> reason w = Tiebreaker
           \<and> playerWasInTie w = Some True)"
proof (intro conjI)
  let ?p = "mkStore [10, 20, 30, 40, 50] [mkBall 1 ''#FF0000'' [15, 25], mkBall 2 ''#0000FF'' [35]]"
  have "\<exists>e \<in> set (entities ?p). 5 \<le> e_count e" by (simp add: ev)
  with getWinnerBySecondaryCondition_contract[of ?p]
  obtain w e where "getWinnerBySecondaryCondition ?p = Some w" "e \<in> set (entities ?p)"
    "5 \<le> e_count e" "names w e" "reason w = Primary" by blast
  then show "\<exists>w. getWinnerBySecondaryCondition ?p = Some w \<and> isPlayer w \<and> powerupsCount w = 5
      \<and> reason w = Primary"
    by (auto simp: ev)
next
  let ?z = "mkStore [] [mkBall 1 ''#FF0000'' [], mkBall 2 ''#0000FF'' []]"
  have "(\<forall>e \<in> set (entities ?z). e_count e < 5) \<and> maxCount ?z = 0" by (simp add: ev)
  with getWinnerBySecondaryCondition_contract[of ?z]
  show "getWinnerBySecondaryCondition ?z = None" by blast
next
  let ?u = "mkStore [10, 20] [mkBall 3 ''#00FF00'' [15], mkBall 4 ''#FFFF00'' [30, 40, 50]]"
  have m: "maxCount ?u = 3" by (simp add: ev)
  have t: "tied ?u = [aiEntity (mkBall 4 ''#FFFF00'' [30, 40, 50])]"
    unfolding tied_def m by (simp add: ev)
  have "(\<forall>e \<in> set (entities ?u). e_count e < 5) \<and> 0 < maxCount ?u \<and> length (tied ?u) = 1"
    unfolding t m by (simp add: ev)
  with getWinnerBySecondaryCondition_contract[of ?u]
  obtain w where "getWinnerBySecondaryCondition ?u = Some w" "names w (hd (tied ?u))"
    "reason w = MostPowerups" by blast
  then show "\<exists>w. getWinnerBySecondaryCondition ?u = Some w \<and> w_id w = 4 \<and> \<not> isPlayer w
      \<and> powerupsCount w = 3 \<and> reason w = MostPowerups"
    unfolding t by (auto simp: names_def aiEntity_def mkBall_def)
next
  let ?b2 = "mkBall 2 ''#0000FF'' [200, 300, 800, 900]"
  let ?t = "mkStore [100, 400, 700, 1000]
              [mkBall 1 ''#FF0000'' [50], ?b2, mkBall 3 ''#00FF00'' [500, 600, 950]]"
  have m: "maxCount ?t = 4" by (simp add: ev)
  have t: "tied ?t = [playerEntity ?t, aiEntity ?b2]"
    unfolding tied_def m by (simp add: ev)
  have "timestampsRecorded ?t \<and> (\<forall>e \<in> set (entities ?t). e_count e < 5) \<and> 0 < maxCount ?t
        \<and> 1 < length (tied ?t)"
    unfolding t m by (simp add: ev)
  with getWinnerBySecondaryCondition_contract[of ?t]
  obtain w e where w: "getWinnerBySecondaryCondition ?t = Some w" "e \<in> set (tied ?t)" "names w e"
    "reason w = Tiebreaker"
    "\<forall>e' \<in> set (tied ?t). e_timestamps e ! (maxCount ?t - 1) \<le> e_timestamps e' ! (maxCount ?t - 1)"
    "playerWasInTie w = Some (\<exists>e' \<in> set (tied ?t). e_isPlayer e')" by blast
  from w(2,5) have "e = aiEntity ?b2"
    unfolding t m by (auto simp: playerEntity_def aiEntity_def mkBall_def mkStore_def)
  with w show "\<exists>w. getWinnerBySecondaryCondition ?t = Some w \<and> w_id w = 2 \<and> \<not> isPlayer w
      \<and> reason w = Tiebreaker \<and> playerWasInTie w = Some True"
    unfolding t by (auto simp: names_def playerEntity_def aiEntity_def mkBall_def mkStore_def)
qed

lemma find_first_index:
  assumes "i < length xs" "P (xs ! i)" "\<forall>j<i. \<not> P (xs ! j)"
  shows "find P xs = Some (xs ! i)"
  using assms by (auto simp: find_Some_iff)

lemma find_same_projection:
  assumes "map g xs = map g ys" "\<And>x. P x = Q (g x)"
  shows "map_option g (find P xs) = map_option g (find P ys)"
  using assms
proof (induction xs arbitrary: ys)
  case Nil
  then show ?case by simp
next
  case (Cons x xs)
  then obtain y ys' where ys: "ys = y # ys'" "g x = g y" "map g xs = map g ys'" by (cases ys) auto
  with Cons show ?case by (cases "Q (g x)") auto
qed

lemma primary_ignores_timestamps:
  assumes same: "map scoreView (aiBalls s') = map scoreView (aiBalls s)"
      "playerPowerUpsCollected s' = playerPowerUpsCollected s"
    and five: "\<exists>e \<in> set (entities s). 5 \<le> e_count e"
  shows "getWinnerBySecondaryCondition s' = getWinnerBySecondaryCondition s"
proof (cases "5 \<le> playerPowerUpsCollected s")
  case True
  with same(2) show ?thesis by (simp add: getWinnerBySecondaryCondition_def)
next
  case False
  let ?P = "\<lambda>ball. 5 \<le> powerUpsCollected ball"
  from False five obtain b0 where "b0 \<in> set (aiBalls s)" "?P b0"
    by (auto simp: entities_def playerEntity_def aiEntity_def)
  then obtain b where b: "find ?P (aiBalls s) = Some b"
    by (cases "find ?P (aiBalls s)") (auto simp: find_None_iff)
  have "map_option scoreView (find ?P (aiBalls s')) = map_option scoreView (find ?P (aiBalls s))"
    by (rule find_same_projection[OF same(1), where Q = "\<lambda>v. 5 \<le> fst (snd v)"])
       (simp add: scoreView_def)
  with b obtain b' where b': "find ?P (aiBalls s') = Some b'" "scoreView b' = scoreView b"
    by (cases "find ?P (aiBalls s')") auto
  with b False same(2) show ?thesis
    by (simp add: getWinnerBySecondaryCondition_def scoreView_def)
qed

text \<open>
  Claim C10. In the primary branch the player is preferred to every AI ball: with the
  player at 5 or more the player wins whatever the AI balls hold. Otherwise the first
  ball of \<open>aiBalls\<close>, in array order, with 5 or more wins. No timestamp is compared:
  two stores with the same ids, counts and colours in the same order have the same
  primary winner, whatever their timestamps and positions.
\<close>

theorem primary_branch_order:
  "(5 \<le> playerPowerUpsCollected s \<longrightarrow>
      getWinnerBySecondaryCondition s =
        Some \<lparr> w_id = 0, isPlayer = True, w_color = playerColor, reason = Primary,
               powerupsCount = playerPowerUpsCollected s, playerWasInTie = None \<rparr>)
   \<and> (\<not> 5 \<le> playerPowerUpsCollected s \<and> i < length (aiBalls s)
        \<and> 5 \<le> powerUpsCollected (aiBalls s ! i)
        \<and> (\<forall>j<i. powerUpsCollected (aiBalls s ! j) < 5) \<longrightarrow>
      getWinnerBySecondaryCondition s =
        Some \<lparr> w_id = ball_id (aiBalls s ! i), isPlayer = False, w_color = color (aiBalls s ! i),
               reason = Primary, powerupsCount = powerUpsCollected (aiBalls s ! i),
               playerWasInTie = None \<rparr>)
   \<and> (map scoreView (aiBalls s') = map scoreView (aiBalls s)
        \<and> playerPowerUpsCollected s' = playerPowerUpsCollected s
        \<and> (\<exists>e \<in> set (entities s). 5 \<le> e_count e) \<longrightarrow>
      getWinnerBySecondaryCondition s' = getWinnerBySecondaryCondition s)"
proof (intro conjI impI)
  assume "5 \<le> playerPowerUpsCollected s"
  then show "getWinnerBySecondaryCondition s =
        Some \<lparr> w_id = 0, isPlayer = True, w_color = playerColor, reason = Primary,
               powerupsCount = playerPowerUpsCollected s, playerWasInTie = None \<rparr>"
    by (simp add: getWinnerBySecondaryCondition_def)
next
  assume a: "\<not> 5 \<le> playerPowerUpsCollected s \<and> i < length (aiBalls s)
        \<and> 5 \<le> powerUpsCollected (aiBalls s ! i)
        \<and> (\<forall>j<i. powerUpsCollected (aiBalls s ! j) < 5)"
  then have "find (\<lambda>ball. 5 \<le> powerUpsCollected ball) (aiBalls s) = Some (aiBalls s ! i)"
    by (intro find_first_index) (auto simp: not_le)
  with a show "getWinnerBySecondaryCondition s =
        Some \<lparr> w_id = ball_id (aiBalls s ! i), isPlayer = False, w_color = color (aiBalls s ! i),
               reason = Primary, powerupsCount = powerUpsCollected (aiBalls s ! i),
               playerWasInTie = None \<rparr>"
    by (simp add: getWinnerBySecondaryCondition_def)
next
  assume "map scoreView (aiBalls s') = map scoreView (aiBalls s)
        \<and> playerPowerUpsCollected s' = playerPowerUpsCollected s
        \<and> (\<exists>e \<in> set (entities s). 5 \<le> e_count e)"
  then show "getWinnerBySecondaryCondition s' = getWinnerBySecondaryCondition s"
    using primary_ignores_timestamps by blast
qed

text \<open>The player reached 5 last, and still wins; of two AI balls at 5 and 6 the one
  earlier in the array wins, whichever reached its count first.\<close>

theorem primary_branch_order_witness:
  "getWinnerBySecondaryCondition
      (mkStore [10, 20, 30, 40, 90] [mkBall 1 ''#FF0000'' [1, 2, 3, 4, 5], mkBall 2 ''#0000FF'' [1, 1, 1, 1, 1, 1]])
     = Some \<lparr> w_id = 0, isPlayer = True, w_color = playerColor, reason = Primary,
               powerupsCount = 5, playerWasInTie = None \<rparr>
   \<and> getWinnerBySecondaryCondition
      (mkStore [10, 20] [mkBall 3 ''#00FF00'' [7], mkBall 1 ''#FF0000'' [11, 12, 13, 14, 95],
                         mkBall 2 ''#0000FF'' [1, 2, 3, 4, 5, 6]])
     = Some \<lparr> w_id = 1, isPlayer = False, w_color = ''#FF0000'', reason = Primary,
               powerupsCount = 5, playerWasInTie = None \<rparr>
   \<and> getWinnerBySecondaryCondition
      (mkStore [10, 20] [mkBall 3 ''#00FF00'' [7], mkBall 1 ''#FF0000'' [1, 2, 3, 4, 5],
                         mkBall 2 ''#0000FF'' [11, 12, 13, 14, 15, 96]])
     = getWinnerBySecondaryCondition
      (mkStore [10, 20] [mkBall 3 ''#00FF00'' [7], mkBall 1 ''#FF0000'' [11, 12, 13, 14, 95],
                         mkBall 2 ''#0000FF'' [1, 2, 3, 4, 5, 6]])"
  using primary_branch_order[of "mkStore [10, 20, 30, 40, 90] [mkBall 1 ''#FF0000'' [1, 2, 3, 4, 5], mkBall 2 ''#0000FF'' [1, 1, 1, 1, 1, 1]]"]
    primary_branch_order[of "mkStore [10, 20] [mkBall 3 ''#00FF00'' [7], mkBall 1 ''#FF0000'' [11, 12, 13, 14, 95],
                         mkBall 2 ''#0000FF'' [1, 2, 3, 4, 5, 6]]" 1
        "mkStore [10, 20] [mkBall 3 ''#00FF00'' [7], mkBall 1 ''#FF0000'' [1, 2, 3, 4, 5],
                         mkBall 2 ''#0000FF'' [11, 12, 13, 14, 15, 96]]"]
  by (simp add: mkStore_def mkBall_def scoreView_def entities_def aiEntity_def playerEntity_def)

section \<open>The stepping loop and the physics clock\<close>














section \<open>Bodies: rescale and the mass and inertia law\<close>

lemmas bodydefs = cannonBody_def updateMassProperties_def Let_def zeroVec_def removeBody_def addBody_def ballRadius_def ballMass_def
  baseRadius_def baseMass_def aiRadius_def aiMass_def sphereBaseRadius_def aiBaseMass_def

text \<open>
  Claim C2 as stated fails for the player ball: a ball resting on the ground at scale 1
  has its centre at height 1/2; when the scale becomes 5/4 the new body is placed at
  height 5/8, the new radius, not at the captured position.
\<close>

theorem rescale_changes_player_height:
  "map_option (vy \<circ> b_position) (snd (ballScaleEffect (5 / 4) (restingPhysics, Some restingBall)))
     = Some (5 / 8)
   \<and> vy (b_position restingBall) = 1 / 2"
  by (simp add: ballScaleEffect_def restingPhysics_def restingBall_def Let_def bodydefs)

text \<open>
  Claim C2, amended. When the scale changes and a body and the world exist, the old body
  is removed and a new body registered in the same operation. The player's new body
  keeps the captured linear and angular velocity and the captured \<open>x\<close> and \<open>z\<close>; its
  height is the captured height, raised to the new radius when below it. An AI ball's
  new body is registered with the captured position, linear velocity and angular
  velocity; the effect then applies to it a horizontal impulse of random direction and
  strength \<open>2 + Math.random()\<close>.
\<close>

theorem rescale_kinematics:
  "(snd st = Some b \<and> world (fst st) = Some w \<longrightarrow>
      (\<exists>b'. ballScaleEffect k st =
               ((fst st)\<lparr> world := Some (w\<lparr> bodies := remove1 b (bodies w) @ [b'] \<rparr>),
                          playerBody := Some b' \<rparr>, Some b')
           \<and> b_velocity b' = b_velocity b
           \<and> b_angularVelocity b' = b_angularVelocity b
           \<and> vx (b_position b') = vx (b_position b)
           \<and> vz (b_position b') = vz (b_position b)
           \<and> vy (b_position b') = max (vy (b_position b)) (ballRadius k)))
   \<and> (ai_bodyRef refs = Some b \<longrightarrow>
      (\<exists>b'. aiScaleEffect rnd1 rnd2 k (Some w, refs) =
               ((Some (w\<lparr> bodies := remove1 b (bodies w) @ [b'] \<rparr>),
                 refs\<lparr> ai_bodyRef := Some b', targetPositionRef := None,
                       lastDirectionChangeRef := 0 \<rparr>),
                Some \<lparr> vx = cos (rnd1 * pi * 2) * (2 + rnd2), vy = 0,
                       vz = sin (rnd1 * pi * 2) * (2 + rnd2) \<rparr>)
           \<and> b_position b' = b_position b
           \<and> b_velocity b' = b_velocity b
           \<and> b_angularVelocity b' = b_angularVelocity b))"
  by (auto simp: ballScaleEffect_def aiScaleEffect_def createPhysicsBody_def Let_def
        removeBody_def addBody_def cannonBody_def updateMassProperties_def max_def)

text \<open>The resting ball rescaled to 5/4, as the player's body and as an AI ball's.\<close>

theorem rescale_kinematics_witness:
  "(\<exists>b'. snd (ballScaleEffect (5 / 4) (restingPhysics, Some restingBall)) = Some b'
         \<and> b_velocity b' = \<lparr> vx = 1, vy = 0, vz = 0 \<rparr>
         \<and> b_angularVelocity b' = \<lparr> vx = 0, vy = 0, vz = 2 \<rparr>
         \<and> vx (b_position b') = 0 \<and> vz (b_position b') = 99 / 4
         \<and> vy (b_position b') = 5 / 8)
   \<and> (\<exists>b'. ai_bodyRef (snd (fst (aiScaleEffect 0 (1 / 2) (5 / 4)
                  (Some \<lparr> bodies = [restingBall], stepCalls = [] \<rparr>, restingAI)))) = Some b'
         \<and> b_position b' = \<lparr> vx = 0, vy = 1 / 2, vz = 99 / 4 \<rparr>
         \<and> b_velocity b' = \<lparr> vx = 1, vy = 0, vz = 0 \<rparr>
         \<and> b_angularVelocity b' = \<lparr> vx = 0, vy = 0, vz = 2 \<rparr>)
   \<and> snd (aiScaleEffect 0 (1 / 2) (5 / 4)
                  (Some \<lparr> bodies = [restingBall], stepCalls = [] \<rparr>, restingAI))
        = Some \<lparr> vx = 5 / 2, vy = 0, vz = 0 \<rparr>"
proof -
  have p: "snd (restingPhysics, Some restingBall) = Some restingBall
        \<and> world (fst (restingPhysics, Some restingBall))
            = Some \<lparr> bodies = [restingBall], stepCalls = [] \<rparr>"
    by (simp add: restingPhysics_def)
  have a: "ai_bodyRef restingAI = Some restingBall" by (simp add: restingAI_def)
  from rescale_kinematics[of "(restingPhysics, Some restingBall)" restingBall
        "\<lparr> bodies = [restingBall], stepCalls = [] \<rparr>" "5 / 4" restingAI 0 "1 / 2"] p a
  obtain b1 b2 where
    b1: "ballScaleEffect (5 / 4) (restingPhysics, Some restingBall) =
           (restingPhysics\<lparr> world := Some (\<lparr> bodies = [restingBall], stepCalls = [] \<rparr>
                  \<lparr> bodies := remove1 restingBall [restingBall] @ [b1] \<rparr>),
                          playerBody := Some b1 \<rparr>, Some b1)"
        "b_velocity b1 = b_velocity restingBall"
        "b_angularVelocity b1 = b_angularVelocity restingBall"
        "vx (b_position b1) = vx (b_position restingBall)"
        "vz (b_position b1) = vz (b_position restingBall)"
        "vy (b_position b1) = max (vy (b_position restingBall)) (ballRadius (5 / 4))"
    and b2: "aiScaleEffect 0 (1 / 2) (5 / 4) (Some \<lparr> bodies = [restingBall], stepCalls = [] \<rparr>, restingAI) =
               ((Some (\<lparr> bodies = [restingBall], stepCalls = [] \<rparr>\<lparr> bodies := remove1 restingBall [restingBall] @ [b2] \<rparr>),
                 restingAI\<lparr> ai_bodyRef := Some b2, targetPositionRef := None,
                       lastDirectionChangeRef := 0 \<rparr>),
                Some \<lparr> vx = cos (0 * pi * 2) * (2 + 1 / 2), vy = 0,
                       vz = sin (0 * pi * 2) * (2 + 1 / 2) \<rparr>)"
        "b_position b2 = b_position restingBall"
        "b_velocity b2 = b_velocity restingBall"
        "b_angularVelocity b2 = b_angularVelocity restingBall"
    by (auto simp: fst_conv snd_conv)
  from b1 b2 show ?thesis
    by (simp add: restingBall_def bodydefs)
qed

text \<open>The radius and mass follow the scale as stated, for the player and the AI balls.\<close>

lemma radius_mass_law:
  "ballRadius k = 0.5 * k \<and> ballMass k = 5 * k ^ 3 \<and> aiRadius k = 0.5 * k \<and> aiMass k = 5 * k ^ 3"
  by (simp add: ballRadius_def ballMass_def aiRadius_def aiMass_def baseRadius_def baseMass_def
      sphereBaseRadius_def aiBaseMass_def)

text \<open>Every path that builds a body computes \<open>I = 2 mass radius\<^sup>2 / 5\<close> and assigns it, and
  then calls \<open>updateMassProperties\<close>, which overwrites it: the body ends with the inertia
  \<open>(2/3) mass radius\<^sup>2\<close> of the surrounding box on every axis.\<close>

lemma updateMassProperties_sphere:
  "b_inertia (updateMassProperties b)
     = \<lparr> vx = 2 / 3 * b_mass b * (b_radius b)\<^sup>2, vy = 2 / 3 * b_mass b * (b_radius b)\<^sup>2,
         vz = 2 / 3 * b_mass b * (b_radius b)\<^sup>2 \<rparr>"
  by (simp add: updateMassProperties_def Let_def power2_eq_square)

lemma built_body_inertia:
  "world (fst st) = Some w \<Longrightarrow>
     map_option b_inertia (snd (createPlayerBall True rnd k st))
       = Some \<lparr> vx = 2 / 3 * ballMass k * (ballRadius k)\<^sup>2,
                vy = 2 / 3 * ballMass k * (ballRadius k)\<^sup>2,
                vz = 2 / 3 * ballMass k * (ballRadius k)\<^sup>2 \<rparr>"
  "world (fst st) = Some w \<Longrightarrow> snd st = Some old \<Longrightarrow>
     map_option b_inertia (snd (ballScaleEffect k st))
       = Some \<lparr> vx = 2 / 3 * ballMass k * (ballRadius k)\<^sup>2,
                vy = 2 / 3 * ballMass k * (ballRadius k)\<^sup>2,
                vz = 2 / 3 * ballMass k * (ballRadius k)\<^sup>2 \<rparr>"
  "map_option b_inertia (snd (createPhysicsBody k (Some w) pos vel ang))
       = Some \<lparr> vx = 2 / 3 * aiMass k * (aiRadius k)\<^sup>2,
                vy = 2 / 3 * aiMass k * (aiRadius k)\<^sup>2,
                vz = 2 / 3 * aiMass k * (aiRadius k)\<^sup>2 \<rparr>"
  by (simp_all add: createPlayerBall_def ballScaleEffect_def createPhysicsBody_def cannonBody_def
      updateMassProperties_def Let_def power2_eq_square split: option.splits)

text \<open>
  Claim C8 holds for the radius and the mass and fails for the inertia. At scale 1 the
  radius is 1/2 and the mass 5, so \<open>(2/5) mass radius\<^sup>2\<close> is 1/2; the player's body as
  created, the player's body after a rescale, and an AI ball's body as built by
  \<open>createPhysicsBody\<close> each end with inertia 5/6 on all three axes, because the call of
  \<open>updateMassProperties\<close> that follows the assignment overwrites it.
\<close>

theorem inertia_overwritten_at_scale_one:
  "ballRadius 1 = 1 / 2 \<and> ballMass 1 = 5 \<and> aiRadius 1 = 1 / 2 \<and> aiMass 1 = 5
   \<and> 2 / 5 * ballMass 1 * (ballRadius 1)\<^sup>2 = 1 / 2
   \<and> map_option b_inertia (snd (createPlayerBall True (1 / 2) 1 (restingPhysics, None)))
        = Some \<lparr> vx = 5 / 6, vy = 5 / 6, vz = 5 / 6 \<rparr>
   \<and> map_option b_inertia (snd (ballScaleEffect 1 (restingPhysics, Some restingBall)))
        = Some \<lparr> vx = 5 / 6, vy = 5 / 6, vz = 5 / 6 \<rparr>
   \<and> map_option b_inertia (snd (createPhysicsBody 1 (Some emptyWorld) zeroVec None None))
        = Some \<lparr> vx = 5 / 6, vy = 5 / 6, vz = 5 / 6 \<rparr>"
proof -
  have v: "ballRadius 1 = 1 / 2" "ballMass 1 = 5" "aiRadius 1 = 1 / 2" "aiMass 1 = 5"
    using radius_mass_law[of 1] by simp_all
  have w: "world (fst (restingPhysics, None :: body option))
             = Some \<lparr> bodies = [restingBall], stepCalls = [] \<rparr>"
    "world (fst (restingPhysics, Some restingBall))
             = Some \<lparr> bodies = [restingBall], stepCalls = [] \<rparr>"
    "snd (restingPhysics, Some restingBall) = Some restingBall"
    by (simp_all add: restingPhysics_def)
  have n: "2 / 3 * (5 :: real) * (1 / 2)\<^sup>2 = 5 / 6" "2 / 5 * (5 :: real) * (1 / 2)\<^sup>2 = 1 / 2"
    by (simp_all add: power2_eq_square)
  have a: "map_option b_inertia (snd (createPlayerBall True (1 / 2) 1 (restingPhysics, None)))
        = Some \<lparr> vx = 5 / 6, vy = 5 / 6, vz = 5 / 6 \<rparr>"
    using built_body_inertia(1)[OF w(1), of "1 / 2" 1] unfolding v n(1) .
  have b: "map_option b_inertia (snd (ballScaleEffect 1 (restingPhysics, Some restingBall)))
        = Some \<lparr> vx = 5 / 6, vy = 5 / 6, vz = 5 / 6 \<rparr>"
    using built_body_inertia(2)[OF w(2) w(3), of 1] unfolding v n(1) .
  have c: "map_option b_inertia (snd (createPhysicsBody 1 (Some emptyWorld) zeroVec None None))
        = Some \<lparr> vx = 5 / 6, vy = 5 / 6, vz = 5 / 6 \<rparr>"
    using built_body_inertia(3)[of 1 emptyWorld zeroVec None None] unfolding v n(1) .
  have d: "2 / 5 * ballMass 1 * (ballRadius 1)\<^sup>2 = 1 / 2" unfolding v n(2) ..
  from v a b c d show ?thesis by (intro conjI)
qed

section \<open>Fair start positions\<close>

text \<open>The table holds the 21 distances from 23.75 to 25.75 in steps of 0.1. For every
  seed and id the index is between 0 and 21 and the variation between -0.2 and 0.2.
  When the first sine is below 1 the index is inside the table, and the start position
  lies at a distance from the centre that is a distance of the table plus the
  variation. If that sine were 1, the index would be 21, outside the table.\<close>

lemma fairDistances_steps: "fairDistances = map (\<lambda>k. 23.75 + real k / 10) [0..<21]"
  by (simp add: fairDistances_def upt_rec)

lemma sine_scaled:
  fixes s :: real
  assumes "- 1 \<le> s" "s \<le> 1"
  shows "0 \<le> (s * 0.5 + 0.5) * 21" "(s * 0.5 + 0.5) * 21 \<le> 21"
    "s < 1 \<Longrightarrow> (s * 0.5 + 0.5) * 21 < 21"
    "- 0.2 \<le> (s * 0.5 + 0.5) * 0.4 - 0.2" "(s * 0.5 + 0.5) * 0.4 - 0.2 \<le> 0.2"
proof -
  have e: "(s * 0.5 + 0.5) * 21 = 10.5 * s + 10.5" "(s * 0.5 + 0.5) * 0.4 - 0.2 = 0.2 * s"
    by (simp_all add: algebra_simps)
  show "0 \<le> (s * 0.5 + 0.5) * 21" "(s * 0.5 + 0.5) * 21 \<le> 21"
    "s < 1 \<Longrightarrow> (s * 0.5 + 0.5) * 21 < 21"
    "- 0.2 \<le> (s * 0.5 + 0.5) * 0.4 - 0.2" "(s * 0.5 + 0.5) * 0.4 - 0.2 \<le> 0.2"
    unfolding e using assms by linarith+
qed

lemma fairDistances_length: "real (length fairDistances) = 21"
  by (simp add: fairDistances_def)

lemma fair_index_range:
  "0 \<le> \<lfloor>(sin (h :: real) * 0.5 + 0.5) * real (length fairDistances)\<rfloor>
   \<and> \<lfloor>(sin h * 0.5 + 0.5) * real (length fairDistances)\<rfloor> \<le> 21"
proof -
  define x where "x = (sin h * 0.5 + 0.5) * 21"
  have "0 \<le> x" "x \<le> 21"
    unfolding x_def using sine_scaled(1,2)[OF sin_ge_minus_one[of h] sin_le_one[of h]] by blast+
  then have "0 \<le> \<lfloor>x\<rfloor> \<and> \<lfloor>x\<rfloor> \<le> 21" by linarith
  then show ?thesis unfolding fairDistances_length x_def .
qed

lemma fair_index_inside:
  assumes "sin (h :: real) < 1"
  shows "\<lfloor>(sin h * 0.5 + 0.5) * real (length fairDistances)\<rfloor> < 21"
proof -
  define x where "x = (sin h * 0.5 + 0.5) * 21"
  have "x < 21"
    unfolding x_def using sine_scaled(3)[OF sin_ge_minus_one[of h] sin_le_one[of h] assms] .
  then have "\<lfloor>x\<rfloor> < 21" by linarith
  then show ?thesis unfolding fairDistances_length x_def .
qed

lemma fair_index_outside:
  assumes "sin (h :: real) = 1"
  shows "\<lfloor>(sin h * 0.5 + 0.5) * real (length fairDistances)\<rfloor> = 21"
  unfolding assms fairDistances_length by simp

lemma fair_variation_range:
  "- 0.2 \<le> (sin (g :: real) * 0.5 + 0.5) * 0.4 - 0.2 \<and> (sin g * 0.5 + 0.5) * 0.4 - 0.2 \<le> 0.2"
  using sine_scaled(4,5)[OF sin_ge_minus_one[of g] sin_le_one[of g]] by blast

lemma planar_norm:
  fixes d :: real
  assumes "0 \<le> d"
  shows "sqrt ((cos a * d)\<^sup>2 + (sin a * d)\<^sup>2) = d"
proof -
  have "(cos a * d)\<^sup>2 + (sin a * d)\<^sup>2 = ((cos a)\<^sup>2 + (sin a)\<^sup>2) * d\<^sup>2"
    unfolding power_mult_distrib by (rule distrib_right[symmetric])
  also have "\<dots> = d\<^sup>2" by simp
  finally show ?thesis using assms by simp
qed

lemma fairDistances_least: "\<forall>d \<in> set fairDistances. 23.75 \<le> d"
  by (simp add: fairDistances_def)

lemma fair_start_inside:
  assumes "sin (real i * 12.9898 + of_int seed * 78.233) < 1"
  shows "\<exists>d v. d \<in> set fairDistances \<and> - 0.2 \<le> v \<and> v \<le> 0.2
           \<and> calculateFairStartPosition seed i a = Some (cos a * (d + v), sin a * (d + v))
           \<and> sqrt ((cos a * (d + v))\<^sup>2 + (sin a * (d + v))\<^sup>2) = d + v"
proof -
  define idx where
    "idx = \<lfloor>(sin (real i * 12.9898 + of_int seed * 78.233) * 0.5 + 0.5) * real (length fairDistances)\<rfloor>"
  define v where "v = (sin (real i * 43.758 + of_int seed * 36.2364) * 0.5 + 0.5) * 0.4 - 0.2"
  have r: "0 \<le> idx" "idx < 21"
    unfolding idx_def
    using fair_index_range[of "real i * 12.9898 + of_int seed * 78.233"] fair_index_inside[OF assms]
    by blast+
  have len: "length fairDistances = 21" by (simp add: fairDistances_def)
  have n: "nat idx < length fairDistances" unfolding len using r by linarith
  then have m: "fairDistances ! nat idx \<in> set fairDistances" by (rule nth_mem)
  have vr: "- 0.2 \<le> v" "v \<le> 0.2"
    unfolding v_def using fair_variation_range[of "real i * 43.758 + of_int seed * 36.2364"] by blast+
  have i: "0 \<le> idx \<and> idx < int (length fairDistances)" unfolding len using r by simp
  have c: "calculateFairStartPosition seed i a
             = Some (cos a * (fairDistances ! nat idx + v), sin a * (fairDistances ! nat idx + v))"
    unfolding calculateFairStartPosition_def Let_def idx_def[symmetric] v_def[symmetric]
    using i by simp
  from m fairDistances_least have "23.75 \<le> fairDistances ! nat idx" by blast
  with vr have p: "0 \<le> fairDistances ! nat idx + v" by simp
  from m vr c planar_norm[OF p, of a] show ?thesis by blast
qed

lemma fair_start_outside:
  assumes "sin (real i * 12.9898 + of_int seed * 78.233) = 1"
  shows "calculateFairStartPosition seed i a = None"
proof -
  have "\<lfloor>(sin (real i * 12.9898 + of_int seed * 78.233) * 0.5 + 0.5) * real (length fairDistances)\<rfloor> = 21"
    using fair_index_outside[OF assms] .
  moreover have "int (length fairDistances) = 21" by (simp add: fairDistances_def)
  ultimately show ?thesis
    unfolding calculateFairStartPosition_def Let_def by simp
qed

section \<open>Power-up collection: the lock, the primary win and the respawn\<close>

lemma credits_append: "credits (xs @ ys) = credits xs + credits ys"
  by (simp add: credits_def)

























section \<open>Restart\<close>

lemma cleared_resetBalls: "cleared (resetBalls s)"
  by (auto simp: cleared_def resetBalls_def)

lemma cleared_registerBall: "cleared s \<Longrightarrow> cleared (registerBall i p c s)"
proof -
  assume c: "cleared s"
  have "\<And>b. find (\<lambda>ball. ball_id ball = i) (aiBalls s) = Some b \<Longrightarrow>
          powerUpsCollected b = 0 \<and> collectionTimestamps b = []"
    using c by (auto simp: cleared_def find_Some_iff)
  with c show ?thesis
    by (auto simp: cleared_def registerBall_def Let_def split: option.splits)
qed

lemma createAIBall_store:
  "fst (createAIBall start k (store, w, refs)) = store
   \<or> fst (createAIBall start k (store, w, refs))
       = registerBall (a_id refs) \<lparr> vx = fst start, vy = aiRadius k, vz = snd start \<rparr> (a_color refs) store"
  by (auto simp: createAIBall_def Let_def split: option.splits)

lemma cleared_createAIBall:
  "cleared store \<Longrightarrow> cleared (fst (createAIBall start k (store, w, refs)))"
  using createAIBall_store[of start k store w refs] by (auto simp: cleared_registerBall)

lemma cleared_aiResetListener:
  "cleared (fst (fst acc)) \<Longrightarrow> cleared (fst (fst (aiResetListener e sd refs acc)))"
  by (simp add: aiResetListener_def Let_def cleared_createAIBall)

lemma cleared_fold_listeners:
  "cleared (fst (fst acc)) \<Longrightarrow> cleared (fst (fst (fold (aiResetListener e sd) cs acc)))"
  by (induction cs arbitrary: acc) (simp_all add: cleared_aiResetListener)

lemma resetBallPositions_fields:
  "cleared (scoreStore (roundState a)) \<Longrightarrow> cleared (scoreStore (roundState (resetBallPositions e a)))"
  "ballStore (roundState (resetBallPositions e a)) = ballStore (roundState a)"
  "aiScaleStore (roundState (resetBallPositions e a)) = aiScaleStore (roundState a)"
  "powerUp (roundState (resetBallPositions e a)) = powerUp (roundState a)"
  "phase (roundState (resetBallPositions e a)) = phase (roundState a)"
  "controls (resetBallPositions e a) = controls a"
  "pauseStore (resetBallPositions e a) = pauseStore a"
  "hasSelectedLevel (resetBallPositions e a) = hasSelectedLevel a"
proof -
  show "cleared (scoreStore (roundState a)) \<Longrightarrow> cleared (scoreStore (roundState (resetBallPositions e a)))"
    using cleared_fold_listeners[of "((scoreStore (roundState a), world (fst (createPlayerBall (e_meshPresent e) (e_random e) (e_playerScale e)
                     (physics a, playerBodyRef a))), sessionRandomSeed a), [])" e "e_dateNow e div 1000" "aiComponents a"]
    by (simp add: resetBallPositions_def Let_def split: option.splits)
qed (simp_all add: resetBallPositions_def Let_def split: option.splits)

lemma resetControlsState_flag: "\<not> hasPlayerStartedMoving (controls (resetControlsState a))"
  by (simp add: resetControlsState_def Let_def disableInput_def resetPlayerMovementFlag_def
      setMovementDirection_def)

lemma resetControlsState_round: "roundState (resetControlsState a) = roundState a"
  by (simp add: resetControlsState_def Let_def)

lemma resumeGame_fields:
  "roundState (resumeGame e a) = roundState a"
  "hasPlayerStartedMoving (controls (resumeGame e a)) = hasPlayerStartedMoving (controls a)"
  by (simp_all add: resumeGame_def Let_def enableInput_def)

lemma restart_round:
  "roundState (restartGame e a) =
     roundState (resetPowerups (resetBallPositions e (resetAIBallState (resetBallState
       (resetPhysicsWorld (resetGameState (resetCameraDirection (resetPointerLockState a))))))))"
  by (simp add: restartGame_def Let_def resumeGame_fields resetDifficultySelection_def
      resetPhysicsClock_def resetControlsState_round)

lemma restart_flag: "\<not> hasPlayerStartedMoving (controls (restartGame e a))"
  by (simp add: restartGame_def Let_def resumeGame_fields resetDifficultySelection_def
      resetPhysicsClock_def resetControlsState_flag)

lemma restart_cleared: "cleared (scoreStore (roundState (restartGame e a)))"
proof -
  let ?a6 = "resetAIBallState (resetBallState
       (resetPhysicsWorld (resetGameState (resetCameraDirection (resetPointerLockState a)))))"
  have "cleared (scoreStore (roundState ?a6))"
    by (simp add: resetAIBallState_def cleared_resetBalls)
  then have "cleared (scoreStore (roundState (resetBallPositions e ?a6)))"
    by (rule resetBallPositions_fields(1))
  then show ?thesis by (simp add: restart_round resetPowerups_def)
qed

lemma restart_scales:
  "scale (ballStore (roundState (restartGame e a))) = 1"
  "aiScaleStore (roundState (restartGame e a)) = \<lparr> scales = Map.empty, ai_isGrowing = Map.empty \<rparr>"
  "powerUpsCollectedState (powerUp (roundState (restartGame e a))) = 0"
  by (simp_all add: restart_round resetPowerups_def resetBallPositions_fields resetAIBallState_def
      resetBallState_def setScale_def resetScales_def handleReset_def)

lemma fold_total_zero:
  "\<forall>b \<in> set bs. powerUpsCollected b = 0 \<Longrightarrow>
     fold (\<lambda>ball total. total + powerUpsCollected ball) bs n = n"
  by (induction bs arbitrary: n) auto

lemma total_cleared: "cleared s \<Longrightarrow> getTotalPowerupsCollected s = 0"
  using fold_total_zero[of "aiBalls s" 0]
  by (simp add: cleared_def getTotalPowerupsCollected_def)

lemma aiFrame_gated:
  "\<not> f_hasPlayerStartedMoving inp \<Longrightarrow> snd (aiFrame inp st) = []
     \<and> targetPositionRef (snd (fst (aiFrame inp st))) = targetPositionRef (snd st)"
  by (simp add: aiFrame_def aiWakeUp_def aiMove_def Let_def split: option.splits)

lemma stallCheck_gated: "stallCheck False r1 r2 refs = refs"
  by (simp add: stallCheck_def split: option.splits)

lemma flag_only_by_input:
  "hasPlayerStartedMoving (setMovementDirection x z c)
     = (hasPlayerStartedMoving c \<or> (isInputEnabled c \<and> (x \<noteq> 0 \<or> z \<noteq> 0)))"
  by (simp add: setMovementDirection_def Let_def)

text \<open>
  What a restart resets. After \<open>restartGame\<close>, from any state (so after any sequence of
  collections): the player's count is 0 and the player's timestamp list is empty; every
  AI ball in the store has count 0 and an empty timestamp list; the total over all
  entities and the power-up component's collected counter are 0; the player's scale is
  1; the AI scale table is empty, so every AI scale reads 1; and
  \<open>hasPlayerStartedMoving\<close> is false. While that flag is false the frame callback of an
  AI ball applies no force and leaves its target as it is, and the 3 s stall check
  changes nothing; the flag becomes true again only through \<open>setMovementDirection\<close>
  with a non-zero direction while input is enabled.
\<close>

lemma restart_resets:
  "playerPowerUpsCollected (scoreStore (roundState (restartGame e a))) = 0
   \<and> playerCollectionTimestamps (scoreStore (roundState (restartGame e a))) = []
   \<and> (\<forall>b \<in> set (aiBalls (scoreStore (roundState (restartGame e a)))).
         powerUpsCollected b = 0 \<and> collectionTimestamps b = [])
   \<and> getTotalPowerupsCollected (scoreStore (roundState (restartGame e a))) = 0
   \<and> powerUpsCollectedState (powerUp (roundState (restartGame e a))) = 0
   \<and> scale (ballStore (roundState (restartGame e a))) = 1
   \<and> scales (aiScaleStore (roundState (restartGame e a))) = Map.empty
   \<and> getScale i (aiScaleStore (roundState (restartGame e a))) = 1
   \<and> \<not> hasPlayerStartedMoving (controls (restartGame e a))
   \<and> (\<not> f_hasPlayerStartedMoving inp \<longrightarrow>
         snd (aiFrame inp st) = []
         \<and> targetPositionRef (snd (fst (aiFrame inp st))) = targetPositionRef (snd st))
   \<and> stallCheck False r1 r2 refs = refs
   \<and> hasPlayerStartedMoving (setMovementDirection x z c)
        = (hasPlayerStartedMoving c \<or> (isInputEnabled c \<and> (x \<noteq> 0 \<or> z \<noteq> 0)))"
  using restart_cleared[of e a] total_cleared[OF restart_cleared[of e a]] restart_scales[of e a]
    restart_flag[of e a] aiFrame_gated[of inp st] stallCheck_gated[of r1 r2 refs]
    flag_only_by_input[of x z c]
  by (simp add: cleared_def getScale_def)

lemma playedRound_store:
  "scoreStore playedRound =
     \<lparr> aiBalls = [(mkBall 1 ''#FF0000'' [2000]), mkBall 2 ''#0000FF'' []],
       playerPowerUpsCollected = 1, playerCollectionTimestamps = [1000] \<rparr>"
  by (simp add: playedRound_def handleAICollection_def handlePlayerCollection_def respawnFire_def
      respawnEffect_def freshRound_def Let_def incrementPowerUps_def incrementPlayerPowerUps_def
      mkStore_def mkBall_def MAX_POWER_UPS_def)

lemma restarted_store:
  "map ball_id (aiBalls (scoreStore (roundState (restartGame testEnv playedApp)))) = [2, 1]"
  by (simp add: restart_round resetPowerups_def resetBallPositions_def resetAIBallState_def
      resetBallState_def resetPhysicsWorld_def resetGameState_def resetCameraDirection_def
      resetPointerLockState_def playedApp_def playedRound_store testEnv_def Let_def
      restingPhysics_def restingAI_def aiResetListener_def createAIBall_def registerBall_def
      resetBalls_def createPhysicsBody_def mkBall_def fixedStart_def unitScale_def
      createPlayerBall_def)

text \<open>A round in which the player and AI ball 1 have each collected once, with
  the player moving, is restarted; the next frame of AI ball 1 applies no force.\<close>

lemma restart_resets_example:
  "getTotalPowerupsCollected (scoreStore (roundState playedApp)) = 2
   \<and> hasPlayerStartedMoving (controls playedApp)
   \<and> map ball_id (aiBalls (scoreStore (roundState (restartGame testEnv playedApp)))) = [2, 1]
   \<and> map powerUpsCollected (aiBalls (scoreStore (roundState (restartGame testEnv playedApp)))) = [0, 0]
   \<and> map collectionTimestamps (aiBalls (scoreStore (roundState (restartGame testEnv playedApp)))) = [[], []]
   \<and> getTotalPowerupsCollected (scoreStore (roundState (restartGame testEnv playedApp))) = 0
   \<and> scale (ballStore (roundState (restartGame testEnv playedApp))) = 1
   \<and> getScale 1 (aiScaleStore (roundState (restartGame testEnv playedApp))) = 1
   \<and> \<not> hasPlayerStartedMoving (controls (restartGame testEnv playedApp))
   \<and> snd (aiFrame idleFrame (scoreStore (roundState (restartGame testEnv playedApp)), restingAI)) = []"
proof -
  note T = restart_resets[where e = testEnv and a = playedApp and i = 1 and inp = idleFrame
      and st = "(scoreStore (roundState (restartGame testEnv playedApp)), restingAI)"
      and ?r1.0 = 0 and ?r2.0 = 0 and refs = restingAI and x = 0 and z = 0
      and c = "controls playedApp"]
  have before: "getTotalPowerupsCollected (scoreStore (roundState playedApp)) = 2"
    "hasPlayerStartedMoving (controls playedApp)"
    by (simp_all add: playedApp_def playedRound_store getTotalPowerupsCollected_def mkBall_def)
  have idle: "\<not> f_hasPlayerStartedMoving idleFrame" by (simp add: idleFrame_def)
  obtain b1 b2 where bs: "aiBalls (scoreStore (roundState (restartGame testEnv playedApp))) = [b1, b2]"
    using restarted_store by (auto simp: map_eq_Cons_conv)
  from T bs have z: "powerUpsCollected b1 = 0" "collectionTimestamps b1 = []"
    "powerUpsCollected b2 = 0" "collectionTimestamps b2 = []" by simp_all
  from T idle before restarted_store z bs show ?thesis by simp
qed

text \<open>The scale effect of an AI ball after a restart. The new body keeps the velocity
  of the old one and has the mass of the new scale; the impulse does not depend on any
  flag.\<close>

lemma aiScaleEffect_body:
  "ai_bodyRef refs = Some b \<Longrightarrow>
     \<exists>nb. ai_bodyRef (snd (fst (aiScaleEffect rnd1 rnd2 k (Some w, refs)))) = Some nb
        \<and> b_velocity nb = b_velocity b \<and> b_mass nb = aiMass k"
  by (simp add: aiScaleEffect_def createPhysicsBody_def Let_def cannonBody_def
      updateMassProperties_def)

lemma aiScaleEffect_impulse:
  "ai_bodyRef refs = Some b \<Longrightarrow>
     snd (aiScaleEffect rnd1 rnd2 k (Some w, refs))
       = Some \<lparr> vx = cos (rnd1 * pi * 2) * (2 + rnd2), vy = 0, vz = sin (rnd1 * pi * 2) * (2 + rnd2) \<rparr>"
  by (simp add: aiScaleEffect_def createPhysicsBody_def Let_def)

lemma resumeGame_bodies:
  "physics (resumeGame e a) = physics a"
  "aiComponents (resumeGame e a) = aiComponents a"
  by (simp_all add: resumeGame_def Let_def)

lemma resetControlsState_bodies:
  "physics (resetControlsState a) = physics a"
  "aiComponents (resetControlsState a) = aiComponents a"
  by (simp_all add: resetControlsState_def Let_def)

lemma restart_keeps_bodies:
  "physics (restartGame e a) = physics (resetBallPositions e (resetAIBallState (resetBallState
       (resetPhysicsWorld (resetGameState (resetCameraDirection (resetPointerLockState a)))))))"
  "aiComponents (restartGame e a) = aiComponents (resetBallPositions e (resetAIBallState (resetBallState
       (resetPhysicsWorld (resetGameState (resetCameraDirection (resetPointerLockState a)))))))"
  by (simp_all add: restartGame_def Let_def resumeGame_bodies resetDifficultySelection_def
      resetPhysicsClock_def resetControlsState_bodies resetPowerups_def)

lemma createAIBall_refs:
  "\<exists>b. snd (snd (createAIBall start k (store, Some w, refs)))
            = refs\<lparr> ai_bodyRef := Some b, targetPositionRef := None, lastDirectionChangeRef := 0 \<rparr>
         \<and> b_velocity b = zeroVec
         \<and> (\<exists>w'. fst (snd (createAIBall start k (store, Some w, refs))) = Some w')"
  apply (simp add: createAIBall_def createPhysicsBody_def Let_def)
  apply (rule exI, rule conjI, rule refl)
  apply simp
  done

lemma createPlayerBall_world:
  "world (fst st) = Some w \<Longrightarrow> \<exists>w'. world (fst (createPlayerBall m rnd k st)) = Some w'"
  by (simp add: createPlayerBall_def Let_def)

lemma resetBallPositions_single:
  assumes "world (physics a) = Some w" "aiComponents a = [c]"
  shows "\<exists>b. aiComponents (resetBallPositions e a)
            = [c\<lparr> ai_bodyRef := Some b, targetPositionRef := None, lastDirectionChangeRef := 0 \<rparr>]
         \<and> b_velocity b = zeroVec
         \<and> (\<exists>w'. world (physics (resetBallPositions e a)) = Some w')"
proof -
  from createPlayerBall_world[where st = "(physics a, playerBodyRef a)" and w = w
        and m = "e_meshPresent e" and rnd = "e_random e" and k = "e_playerScale e"] assms(1)
  obtain w1 where w1: "world (fst (createPlayerBall (e_meshPresent e) (e_random e) (e_playerScale e)
                     (physics a, playerBodyRef a))) = Some w1" by auto
  show ?thesis
    using assms w1
    by (simp add: resetBallPositions_def aiResetListener_def Let_def createAIBall_refs)
qed

lemma restarted_components:
  "\<exists>b. aiComponents (restartGame testEnv playedApp)
            = [restingAI\<lparr> ai_bodyRef := Some b, targetPositionRef := None,
                          lastDirectionChangeRef := 0 \<rparr>]
         \<and> b_velocity b = zeroVec
         \<and> (\<exists>w. world (physics (restartGame testEnv playedApp)) = Some w)"
proof -
  let ?a6 = "resetAIBallState (resetBallState
       (resetPhysicsWorld (resetGameState (resetCameraDirection (resetPointerLockState playedApp)))))"
  have "world (physics ?a6) = Some \<lparr> bodies = [restingBall], stepCalls = [] \<rparr>"
    "aiComponents ?a6 = [restingAI]"
    by (simp_all add: resetAIBallState_def resetBallState_def resetPhysicsWorld_def
        resetGameState_def resetCameraDirection_def resetPointerLockState_def playedApp_def
        restingPhysics_def Let_def)
  from resetBallPositions_single[OF this, of testEnv] show ?thesis
    by (simp add: restart_keeps_bodies)
qed

lemma played_scale: "getScale 1 (aiScaleStore (roundState playedApp)) = 5 / 4"
  by (simp add: playedApp_def playedRound_def handleAICollection_def handlePlayerCollection_def
      respawnFire_def respawnEffect_def freshRound_def Let_def growAIBall_def getScale_def
      MAX_POWER_UPS_def incrementPowerUps_def incrementPlayerPowerUps_def
      mkStore_def mkBall_def)

text \<open>
  Claim C7 holds for the counts, the timestamp lists, the counters, the scales and the
  flag, and fails for the movement of the AI balls. In a round in which AI ball 1 has
  collected once, its scale is 5/4. \<open>restartGame\<close> resets that scale to 1, leaves the
  ball's component with a new body at rest, and leaves \<open>hasPlayerStartedMoving\<close>
  false. The scale of the ball having changed from 5/4 to 1, the scale effect of its
  component runs at the next render; its kick reads no flag. With both values of
  \<open>Math.random()\<close> equal to 1/2 the impulse is \<open>(-5/2, 0, 0)\<close>, and the new body, of
  mass 5, leaves the effect with velocity \<open>(-1/2, 0, 0)\<close>: the ball moves although the
  player has issued no input since the restart.
\<close>

theorem restart_kicks_grown_ai_ball:
  "getScale 1 (aiScaleStore (roundState playedApp)) = 5 / 4
   \<and> getScale 1 (aiScaleStore (roundState (restartGame testEnv playedApp))) = 1
   \<and> \<not> hasPlayerStartedMoving (controls (restartGame testEnv playedApp))
   \<and> map a_id (aiComponents (restartGame testEnv playedApp)) = [1]
   \<and> map (map_option b_velocity \<circ> ai_bodyRef) (aiComponents (restartGame testEnv playedApp))
        = [Some zeroVec]
   \<and> snd (aiScaleEffect (1 / 2) (1 / 2) 1
            (world (physics (restartGame testEnv playedApp)),
             hd (aiComponents (restartGame testEnv playedApp))))
        = Some \<lparr> vx = - (5 / 2), vy = 0, vz = 0 \<rparr>
   \<and> map_option (b_velocity \<circ> applyImpulse \<lparr> vx = - (5 / 2), vy = 0, vz = 0 \<rparr>)
         (ai_bodyRef (snd (fst (aiScaleEffect (1 / 2) (1 / 2) 1
            (world (physics (restartGame testEnv playedApp)),
             hd (aiComponents (restartGame testEnv playedApp)))))))
        = Some \<lparr> vx = - (1 / 2), vy = 0, vz = 0 \<rparr>"
proof -
  from restarted_components obtain b w where
    c: "aiComponents (restartGame testEnv playedApp)
            = [restingAI\<lparr> ai_bodyRef := Some b, targetPositionRef := None,
                          lastDirectionChangeRef := 0 \<rparr>]"
    and v: "b_velocity b = zeroVec"
    and w: "world (physics (restartGame testEnv playedApp)) = Some w" by blast
  let ?refs = "restingAI\<lparr> ai_bodyRef := Some b, targetPositionRef := None,
                          lastDirectionChangeRef := 0 \<rparr>"
  have r: "ai_bodyRef ?refs = Some b" by simp
  have k: "snd (aiScaleEffect (1 / 2) (1 / 2) 1
            (world (physics (restartGame testEnv playedApp)),
             hd (aiComponents (restartGame testEnv playedApp))))
        = Some \<lparr> vx = - (5 / 2), vy = 0, vz = 0 \<rparr>"
    unfolding c w using aiScaleEffect_impulse[OF r, of "1 / 2" "1 / 2" 1 w]
    by simp
  from aiScaleEffect_body[OF r, of "1 / 2" "1 / 2" 1 w] obtain nb where
    nb: "ai_bodyRef (snd (fst (aiScaleEffect (1 / 2) (1 / 2) 1 (Some w, ?refs)))) = Some nb"
    "b_velocity nb = b_velocity b" "b_mass nb = aiMass 1" by blast
  have m: "map_option (b_velocity \<circ> applyImpulse \<lparr> vx = - (5 / 2), vy = 0, vz = 0 \<rparr>)
         (ai_bodyRef (snd (fst (aiScaleEffect (1 / 2) (1 / 2) 1
            (world (physics (restartGame testEnv playedApp)),
             hd (aiComponents (restartGame testEnv playedApp)))))))
        = Some \<lparr> vx = - (1 / 2), vy = 0, vz = 0 \<rparr>"
    unfolding c w using nb v
    by (simp add: applyImpulse_def aiMass_def aiBaseMass_def zeroVec_def Let_def)
  have s: "getScale 1 (aiScaleStore (roundState (restartGame testEnv playedApp))) = 1"
    by (simp add: restart_scales getScale_def)
  have i: "map a_id (aiComponents (restartGame testEnv playedApp)) = [1]"
    "map (map_option b_velocity \<circ> ai_bodyRef) (aiComponents (restartGame testEnv playedApp))
        = [Some zeroVec]"
    unfolding c using v by (simp_all add: restingAI_def)
  note f = restart_flag[of testEnv playedApp]
  show ?thesis
    apply (rule conjI, rule played_scale)
    apply (rule conjI, rule s)
    apply (rule conjI, rule f)
    apply (rule conjI, rule i(1))
    apply (rule conjI, rule i(2))
    apply (rule conjI, rule k)
    apply (rule m)
    done
qed

end
